theory Spec2Isabelle
  imports Complex_Main
begin

section \<open>Python values\<close>

text \<open>
  Python floats and the entries of numpy arrays are modelled as \<open>real\<close>: the arithmetic
  below is exact, so rounding, \<open>inf\<close> and \<open>nan\<close> are outside the model. The tolerance
  \<open>1e-6\<close> is the real number \<open>1 / 1000000\<close>. A count of periods (\<open>steps\<close>,
  \<open>horizon\<close>) is a natural number. A one-dimensional numpy array is a \<open>real list\<close>.
\<close>

datatype py_exception =
    ValueError
  | KeyError
  | ZeroDivisionError
  | AttributeError
  | AdapterError \<comment> \<open>any exception raised inside a model adapter's call\<close>

text \<open>
  A Python dict is an association list in insertion order. Storing under a key that is
  already present replaces the value in place and keeps the key's position; a new key goes
  to the end. Lookup is \<open>map_of\<close>.
\<close>

fun dict_set :: "'k \<Rightarrow> 'v \<Rightarrow> ('k \<times> 'v) list \<Rightarrow> ('k \<times> 'v) list" where
  "dict_set k v [] = [(k, v)]"
| "dict_set k v ((k', v') # d) =
     (if k' = k then (k', v) # d else (k', v') # dict_set k v d)"

definition dict_keys :: "('k \<times> 'v) list \<Rightarrow> 'k list" where
  "dict_keys d = map fst d"

definition dict_values :: "('k \<times> 'v) list \<Rightarrow> 'v list" where
  "dict_values d = map snd d"

text \<open>
  \<open>a += b\<close> on numpy arrays: the shape of \<open>a\<close> is kept, \<open>b\<close> must have the same
  length or length one (then it is broadcast); any other shape raises \<open>ValueError\<close>.
\<close>

definition np_iadd :: "real list \<Rightarrow> real list \<Rightarrow> py_exception + real list" where
  "np_iadd a b =
     (if length b = length a then Inr (map2 (+) a b)
      else if length b = 1 then Inr (map (\<lambda>x. x + hd b) a)
      else Inl ValueError)"

text \<open>
  \<open>a * b\<close> on numpy arrays, with broadcasting of a one-element operand.
\<close>

definition np_mul :: "real list \<Rightarrow> real list \<Rightarrow> py_exception + real list" where
  "np_mul a b =
     (if length a = length b then Inr (map2 (*) a b)
      else if length a = 1 then Inr (map (\<lambda>y. hd a * y) b)
      else if length b = 1 then Inr (map (\<lambda>x. x * hd b) a)
      else Inl ValueError)"

section \<open>The ensemble combiner (ensemble.py)\<close>

record interval_forecast =
  forecast :: "real list"
  ci_lower :: "real list"
  ci_upper :: "real list"

text \<open>
  A model adapter, as the combiner sees it. A method that the object does not have
  (\<open>hasattr\<close> is false) is \<open>None\<close>. A method takes the positional training series when
  the caller passes one, the number of steps, and for intervals \<open>alpha\<close> when the caller
  passes it; it returns its array or raises.
\<close>

record model_handle =
  predict :: "(real list option \<Rightarrow> nat \<Rightarrow> py_exception + real list) option"
  predict_with_intervals ::
    "(real list option \<Rightarrow> nat \<Rightarrow> real option \<Rightarrow> py_exception + interval_forecast) option"

record EnsembleForecaster =
  models :: "(string \<times> model_handle) list"
  weights :: "(string \<times> real) list"
  performance_metrics :: "(string \<times> (string \<times> real) list) list"

text \<open>
  An operation that assigns to \<open>self\<close> returns the outcome of the call (\<open>Inl\<close> the
  exception raised, \<open>Inr ()\<close> a normal return) together with the object after the call.
\<close>

definition add_model ::
  "EnsembleForecaster \<Rightarrow> string \<Rightarrow> model_handle \<Rightarrow> real option \<Rightarrow> EnsembleForecaster" where
  "add_model e name model weight =
     (let e1 = e\<lparr>models := dict_set name model (models e)\<rparr>
      in case weight of
           None \<Rightarrow> e1
         | Some w \<Rightarrow> e1\<lparr>weights := dict_set name w (weights e1)\<rparr>)"

text \<open>The loop \<open>for name in weights: if name not in self.models: raise ValueError\<close>.\<close>

fun validate_models_exist ::
  "(string \<times> model_handle) list \<Rightarrow> string list \<Rightarrow> py_exception + unit" where
  "validate_models_exist ms [] = Inr ()"
| "validate_models_exist ms (name # names) =
     (if map_of ms name = None then Inl ValueError else validate_models_exist ms names)"

definition set_weights ::
  "EnsembleForecaster \<Rightarrow> (string \<times> real) list \<Rightarrow> (py_exception + unit) \<times> EnsembleForecaster" where
  "set_weights e ws =
     (if \<bar>sum_list (dict_values ws) - 1\<bar> > 1 / 1000000 then (Inl ValueError, e)
      else case validate_models_exist (models e) (dict_keys ws) of
             Inl err \<Rightarrow> (Inl err, e)
           | Inr u \<Rightarrow> (Inr (), e\<lparr>weights := ws\<rparr>))"

text \<open>
  \<open>scores = {name: metrics[name][metric] for name in metrics}\<close>: a missing metric raises
  \<open>KeyError\<close>.
\<close>

fun extract_scores ::
  "(string \<times> (string \<times> real) list) list \<Rightarrow> string \<Rightarrow> py_exception + (string \<times> real) list" where
  "extract_scores [] metric = Inr []"
| "extract_scores ((name, row) # rest) metric =
     (case map_of row metric of
        None \<Rightarrow> Inl KeyError
      | Some score \<Rightarrow>
          (case extract_scores rest metric of
             Inl err \<Rightarrow> Inl err
           | Inr scores \<Rightarrow> Inr ((name, score) # scores)))"

text \<open>
  \<open>inverse_scores = {name: 1 / score for name, score in scores.items()}\<close>: the scores
  are Python floats (the annotated type), so a zero score raises \<open>ZeroDivisionError\<close>.
\<close>

fun invert_scores :: "(string \<times> real) list \<Rightarrow> py_exception + (string \<times> real) list" where
  "invert_scores [] = Inr []"
| "invert_scores ((name, score) # rest) =
     (if score = 0 then Inl ZeroDivisionError
      else case invert_scores rest of
             Inl err \<Rightarrow> Inl err
           | Inr inverse_scores \<Rightarrow> Inr ((name, 1 / score) # inverse_scores))"

text \<open>
  \<open>{name: inv / total_inverse for name, inv in inverse_scores.items()}\<close>: the division is
  evaluated once per entry, so a zero total raises only when there is an entry.
\<close>

fun normalize_scores :: "real \<Rightarrow> (string \<times> real) list \<Rightarrow> py_exception + (string \<times> real) list" where
  "normalize_scores total_inverse [] = Inr []"
| "normalize_scores total_inverse ((name, inv_score) # rest) =
     (if total_inverse = 0 then Inl ZeroDivisionError
      else case normalize_scores total_inverse rest of
             Inl err \<Rightarrow> Inl err
           | Inr ws \<Rightarrow> Inr ((name, inv_score / total_inverse) # ws))"

definition auto_weight_by_performance ::
  "EnsembleForecaster \<Rightarrow> (string \<times> (string \<times> real) list) list \<Rightarrow> string
     \<Rightarrow> (py_exception + unit) \<times> EnsembleForecaster" where
  "auto_weight_by_performance e metrics metric =
     (case extract_scores metrics metric of
        Inl err \<Rightarrow> (Inl err, e)
      | Inr scores \<Rightarrow>
          (case invert_scores scores of
             Inl err \<Rightarrow> (Inl err, e)
           | Inr inverse_scores \<Rightarrow>
               (let total_inverse = sum_list (dict_values inverse_scores)
                in case normalize_scores total_inverse inverse_scores of
                     Inl err \<Rightarrow> (Inl err, e)
                   | Inr ws \<Rightarrow> (Inr (), e\<lparr>weights := ws\<rparr>))))"

text \<open>
  The call a weighted model receives in \<open>predict_volume\<close>: the adapter named \<open>lstm\<close>
  gets the training series, every other one only \<open>steps\<close>.
\<close>

definition call_predict ::
  "string \<Rightarrow> (real list option \<Rightarrow> nat \<Rightarrow> py_exception + real list) \<Rightarrow> real list \<Rightarrow> nat
     \<Rightarrow> py_exception + real list" where
  "call_predict name f train_data steps =
     (if name = ''lstm'' then f (Some train_data) steps else f None steps)"

text \<open>
  The first loop of \<open>predict_volume\<close>: models without a weight and models without a
  \<open>predict\<close> method are skipped, a call that raises is reported and skipped, every other
  result is stored under the model's name.
\<close>

fun collect_predictions ::
  "(string \<times> real) list \<Rightarrow> real list \<Rightarrow> nat \<Rightarrow> (string \<times> model_handle) list
     \<Rightarrow> (string \<times> real list) list \<Rightarrow> (string \<times> real list) list" where
  "collect_predictions ws train_data steps [] predictions = predictions"
| "collect_predictions ws train_data steps ((name, model) # ms) predictions =
     (if map_of ws name = None then collect_predictions ws train_data steps ms predictions
      else case predict model of
             None \<Rightarrow> collect_predictions ws train_data steps ms predictions
           | Some f \<Rightarrow>
               (case call_predict name f train_data steps of
                  Inl err \<Rightarrow> collect_predictions ws train_data steps ms predictions
                | Inr pred \<Rightarrow>
                    collect_predictions ws train_data steps ms
                      (dict_set name pred predictions)))"

text \<open>
  The second loop: \<open>weight = self.weights.get(name, 0)\<close>,
  \<open>ensemble_pred += weight * pred\<close>, \<open>total_weight += weight\<close>. The in-place addition is
  outside any \<open>try\<close>, so a forecast of the wrong shape ends the call.
\<close>

fun weighted_average ::
  "(string \<times> real) list \<Rightarrow> (string \<times> real list) list \<Rightarrow> real list \<Rightarrow> real
     \<Rightarrow> py_exception + real list \<times> real" where
  "weighted_average ws [] ensemble_pred total_weight = Inr (ensemble_pred, total_weight)"
| "weighted_average ws ((name, pred) # ps) ensemble_pred total_weight =
     (let weight = (case map_of ws name of None \<Rightarrow> 0 | Some w \<Rightarrow> w)
      in case np_iadd ensemble_pred (map (\<lambda>x. weight * x) pred) of
           Inl err \<Rightarrow> Inl err
         | Inr ensemble_pred' \<Rightarrow> weighted_average ws ps ensemble_pred' (total_weight + weight))"

definition predict_volume ::
  "EnsembleForecaster \<Rightarrow> real list \<Rightarrow> nat \<Rightarrow> py_exception + real list" where
  "predict_volume e train_data steps =
     (if weights e = [] then Inl ValueError
      else
        let predictions = collect_predictions (weights e) train_data steps (models e) []
        in case weighted_average (weights e) predictions (replicate steps 0) 0 of
             Inl err \<Rightarrow> Inl err
           | Inr (ensemble_pred, total_weight) \<Rightarrow>
               if total_weight > 0 \<and> \<bar>total_weight - 1\<bar> > 1 / 1000000
               then Inr (map (\<lambda>x. x / total_weight) ensemble_pred)
               else Inr ensemble_pred)"

subsection \<open>What the combiner is specified to compute\<close>

text \<open>
  The definitions of this subsection follow the words of the specification; the theorems
  compare them with the functions above.

  \<open>weighted_forecasts\<close>: for every registered model that has a weight and a \<open>predict\<close>
  method, its weight and the forecast it returned; a model whose call raised is left out.
\<close>

fun weighted_forecasts ::
  "(string \<times> real) list \<Rightarrow> real list \<Rightarrow> nat \<Rightarrow> (string \<times> model_handle) list
     \<Rightarrow> (real \<times> real list) list" where
  "weighted_forecasts ws train_data steps [] = []"
| "weighted_forecasts ws train_data steps ((name, model) # ms) =
     (case (map_of ws name, predict model) of
        (Some w, Some f) \<Rightarrow>
          (case call_predict name f train_data steps of
             Inl err \<Rightarrow> weighted_forecasts ws train_data steps ms
           | Inr pred \<Rightarrow> (w, pred) # weighted_forecasts ws train_data steps ms)
      | _ \<Rightarrow> weighted_forecasts ws train_data steps ms)"

text \<open>
  \<open>combined_forecast\<close>: the elementwise sum of \<open>weight * forecast\<close>, divided by the
  total weight used when that is positive and differs from one by more than the tolerance.
\<close>

definition combined_forecast :: "(real \<times> real list) list \<Rightarrow> nat \<Rightarrow> real list" where
  "combined_forecast used steps =
     (let acc = map (\<lambda>i. \<Sum>(w, pred)\<leftarrow>used. w * pred ! i) [0..<steps];
          total = (\<Sum>(w, pred)\<leftarrow>used. w)
      in if total > 0 \<and> \<bar>total - 1\<bar> > 1 / 1000000
         then map (\<lambda>x. x / total) acc else acc)"

text \<open>
  Inverse-error weights: \<open>(1 / s) / sum of all (1 / s)\<close>, where \<open>s\<close> is the value a
  model's row records for the metric.
\<close>

definition metric_score :: "(string \<times> real) list \<Rightarrow> string \<Rightarrow> real" where
  "metric_score row metric = (case map_of row metric of None \<Rightarrow> 0 | Some s \<Rightarrow> s)"

definition inverse_total :: "(string \<times> (string \<times> real) list) list \<Rightarrow> string \<Rightarrow> real" where
  "inverse_total metrics metric = (\<Sum>(name, row)\<leftarrow>metrics. 1 / metric_score row metric)"

definition inverse_error_weights ::
  "(string \<times> (string \<times> real) list) list \<Rightarrow> string \<Rightarrow> (string \<times> real) list" where
  "inverse_error_weights metrics metric =
     map (\<lambda>(name, row). (name, (1 / metric_score row metric) / inverse_total metrics metric))
       metrics"

text \<open>The invariant of the weight map: every key names a registered model.\<close>

definition weights_registered :: "EnsembleForecaster \<Rightarrow> bool" where
  "weights_registered e =
     list_all (\<lambda>name. map_of (models e) name \<noteq> None) (dict_keys (weights e))"

subsection \<open>Adapters and ensembles used as examples\<close>

definition constant_model :: "real list \<Rightarrow> model_handle" where
  "constant_model pred =
     \<lparr>predict = Some (\<lambda>train_data steps. Inr pred), predict_with_intervals = None\<rparr>"

definition failing_model :: model_handle where
  "failing_model =
     \<lparr>predict = Some (\<lambda>train_data steps. Inl AdapterError), predict_with_intervals = None\<rparr>"

definition two_model_ensemble :: "model_handle \<Rightarrow> model_handle \<Rightarrow> EnsembleForecaster" where
  "two_model_ensemble m1 m2 =
     \<lparr>models = [(''sarima'', m1), (''prophet'', m2)],
      weights = [(''sarima'', 1 / 2), (''prophet'', 1 / 2)],
      performance_metrics = []\<rparr>"

definition empty_ensemble :: EnsembleForecaster where
  "empty_ensemble = \<lparr>models = [], weights = [], performance_metrics = []\<rparr>"

section \<open>The exogenous event catalog and scenario simulator (exogenous.py)\<close>

datatype ExogenousEventType =
    COVID_19
  | WILDFIRE
  | EXTREME_WEATHER
  | ECONOMIC_RECESSION
  | MAJOR_EVENT
  | REGULATORY_CHANGE

fun event_value :: "ExogenousEventType \<Rightarrow> string" where
  "event_value COVID_19 = ''covid_19''"
| "event_value WILDFIRE = ''wildfire''"
| "event_value EXTREME_WEATHER = ''extreme_weather''"
| "event_value ECONOMIC_RECESSION = ''economic_recession''"
| "event_value MAJOR_EVENT = ''major_event''"
| "event_value REGULATORY_CHANGE = ''regulatory_change''"

text \<open>
  An entry of \<open>historical_periods\<close> (keys \<open>start\<close>, \<open>end\<close>, \<open>severity\<close>) and an entry of
  the catalog. A key that an entry may lack is an \<open>option\<close>.
\<close>

record historical_period =
  period_start :: string
  period_end :: string
  severity :: real

record event_definition =
  event_name :: string
  description :: string
  historical_periods :: "historical_period list option"
  seasonal_pattern :: "(string \<times> real) list option"
  impact_multiplier :: real
  affected_neighborhoods :: "string list option"

record ExogenousVariableManager =
  event_definitions :: "(ExogenousEventType \<times> event_definition) list"

definition define_events :: "(ExogenousEventType \<times> event_definition) list" where
  "define_events =
     [(COVID_19,
       \<lparr>event_name = ''COVID-19 Pandemic'',
        description = ''Impact of COVID-19 on travel and short-term rentals'',
        historical_periods = Some
          [\<lparr>period_start = ''2020-03'', period_end = ''2021-06'', severity = 8 / 10\<rparr>,
           \<lparr>period_start = ''2021-07'', period_end = ''2022-12'', severity = 4 / 10\<rparr>],
        seasonal_pattern = None,
        impact_multiplier = - (6 / 10),
        affected_neighborhoods = None\<rparr>),
      (WILDFIRE,
       \<lparr>event_name = ''LA Wildfires'',
        description = ''Major wildfire events affecting LA area'',
        historical_periods = Some
          [\<lparr>period_start = ''2020-08'', period_end = ''2020-10'', severity = 6 / 10\<rparr>,
           \<lparr>period_start = ''2023-07'', period_end = ''2023-08'', severity = 4 / 10\<rparr>],
        seasonal_pattern = None,
        impact_multiplier = - (3 / 10),
        affected_neighborhoods = Some [''Malibu'', ''Topanga'', ''Hollywood Hills'']\<rparr>),
      (EXTREME_WEATHER,
       \<lparr>event_name = ''Extreme Weather Events'',
        description = ''Heat waves, storms, atmospheric rivers'',
        historical_periods = None,
        seasonal_pattern = Some
          [(''Q1'', 3 / 10), (''Q2'', 2 / 10), (''Q3'', 5 / 10), (''Q4'', 2 / 10)],
        impact_multiplier = - (15 / 100),
        affected_neighborhoods = None\<rparr>),
      (ECONOMIC_RECESSION,
       \<lparr>event_name = ''Economic Recession'',
        description = ''Economic downturn affecting travel spending'',
        historical_periods = Some
          [\<lparr>period_start = ''2008-01'', period_end = ''2009-12'', severity = 9 / 10\<rparr>,
           \<lparr>period_start = ''2020-03'', period_end = ''2020-06'', severity = 7 / 10\<rparr>],
        seasonal_pattern = None,
        impact_multiplier = - (4 / 10),
        affected_neighborhoods = None\<rparr>),
      (MAJOR_EVENT,
       \<lparr>event_name = ''Major Events (Olympics, Concerts, etc.)'',
        description = ''Large events driving tourism'',
        historical_periods = Some
          [\<lparr>period_start = ''2028-07'', period_end = ''2028-08'', severity = 1\<rparr>],
        seasonal_pattern = None,
        impact_multiplier = 5 / 10,
        affected_neighborhoods = None\<rparr>),
      (REGULATORY_CHANGE,
       \<lparr>event_name = ''Airbnb Regulation Changes'',
        description = ''New laws restricting or enabling short-term rentals'',
        historical_periods = Some
          [\<lparr>period_start = ''2019-01'', period_end = ''2019-12'', severity = 6 / 10\<rparr>],
        seasonal_pattern = None,
        impact_multiplier = - (25 / 100),
        affected_neighborhoods = None\<rparr>)]"

subsection \<open>Dates\<close>

text \<open>
  A timezone-naive pandas timestamp: year, month, day and the nanosecond of the day.
  Comparison is lexicographic; the calendar quarter is \<open>(month - 1) // 3 + 1\<close>.
\<close>

datatype timestamp = Timestamp (ts_year: nat) (ts_month: nat) (ts_day: nat) (ts_nanos: nat)

fun ts_le :: "timestamp \<Rightarrow> timestamp \<Rightarrow> bool" where
  "ts_le (Timestamp y1 m1 d1 n1) (Timestamp y2 m2 d2 n2) =
     (y1 < y2 \<or> y1 = y2 \<and> (m1 < m2 \<or> m1 = m2 \<and> (d1 < d2 \<or> d1 = d2 \<and> n1 \<le> n2)))"

definition quarter :: "timestamp \<Rightarrow> nat" where
  "quarter t = (ts_month t - 1) div 3 + 1"

fun digit_of :: "char \<Rightarrow> nat option" where
  "digit_of c =
     (if c = CHR ''0'' then Some 0 else if c = CHR ''1'' then Some 1
      else if c = CHR ''2'' then Some 2 else if c = CHR ''3'' then Some 3
      else if c = CHR ''4'' then Some 4 else if c = CHR ''5'' then Some 5
      else if c = CHR ''6'' then Some 6 else if c = CHR ''7'' then Some 7
      else if c = CHR ''8'' then Some 8 else if c = CHR ''9'' then Some 9
      else None)"

fun digits_value :: "string \<Rightarrow> nat \<Rightarrow> nat option" where
  "digits_value [] acc = Some acc"
| "digits_value (c # cs) acc =
     (case digit_of c of None \<Rightarrow> None | Some d \<Rightarrow> digits_value cs (10 * acc + d))"

text \<open>
  \<open>pd.to_datetime\<close> on a string of the catalog's form \<open>YYYY-MM\<close>: the first day of that
  month at midnight. pandas reads many other forms; the model covers this one (with a year
  that a nanosecond timestamp can hold) and reports every other string as \<open>ValueError\<close>.
\<close>

definition to_datetime :: "string \<Rightarrow> py_exception + timestamp" where
  "to_datetime s =
     (if length s = 7 \<and> s ! 4 = CHR ''-'' then
        (case (digits_value (take 4 s) 0, digits_value (drop 5 s) 0) of
           (Some y, Some m) \<Rightarrow>
             if 1678 \<le> y \<and> y \<le> 2261 \<and> 1 \<le> m \<and> m \<le> 12
             then Inr (Timestamp y m 1 0) else Inl ValueError
         | _ \<Rightarrow> Inl ValueError)
      else Inl ValueError)"

text \<open>
  \<open>int(s)\<close> on a string of decimal digits with an optional sign. Python also accepts
  surrounding whitespace and underscores between digits; the model covers the plain form
  and reports every other string as \<open>ValueError\<close>.
\<close>

definition py_int :: "string \<Rightarrow> py_exception + int" where
  "py_int s =
     (let negative = (s \<noteq> [] \<and> hd s = CHR ''-'');
          signed = (s \<noteq> [] \<and> (hd s = CHR ''-'' \<or> hd s = CHR ''+''));
          ds = (if signed then tl s else s)
      in if ds = [] then Inl ValueError
         else case digits_value ds 0 of
                None \<Rightarrow> Inl ValueError
              | Some n \<Rightarrow> Inr (if negative then - int n else int n))"

text \<open>\<open>int(quarter.replace("Q", ""))\<close>.\<close>

definition quarter_num :: "string \<Rightarrow> py_exception + int" where
  "quarter_num q = py_int (filter (\<lambda>c. c \<noteq> CHR ''Q'') q)"

subsection \<open>The feature frame\<close>

text \<open>
  A pandas data frame: its index and its columns by name, in insertion order. Every column
  is as long as the index.
\<close>

record data_frame =
  df_index :: "timestamp list"
  df_columns :: "(string \<times> real list) list"

text \<open>\<open>df.loc[mask, feature_name] = v\<close> on the column \<open>feature_name\<close>.\<close>

definition loc_assign :: "bool list \<Rightarrow> real \<Rightarrow> real list \<Rightarrow> real list" where
  "loc_assign row_mask v col = map2 (\<lambda>b x. if b then v else x) row_mask col"

definition feature_name :: "ExogenousEventType \<Rightarrow> string" where
  "feature_name event_type = ''exog_'' @ event_value event_type"

text \<open>
  The loop over \<open>historical_periods\<close>. The column \<open>df[feature_name]\<close> is threaded through
  the loops and stored in the frame when they end; an exception leaves no frame behind.
\<close>

fun apply_historical_periods ::
  "timestamp list \<Rightarrow> real \<Rightarrow> historical_period list \<Rightarrow> real list
     \<Rightarrow> py_exception + real list" where
  "apply_historical_periods idx multiplier [] col = Inr col"
| "apply_historical_periods idx multiplier (p # ps) col =
     (case to_datetime (period_start p) of
        Inl err \<Rightarrow> Inl err
      | Inr start \<Rightarrow>
          (case to_datetime (period_end p) of
             Inl err \<Rightarrow> Inl err
           | Inr end' \<Rightarrow>
               (let row_mask = map (\<lambda>d. ts_le start d \<and> ts_le d end') idx
                in apply_historical_periods idx multiplier ps
                     (loc_assign row_mask (severity p * multiplier) col))))"

text \<open>The loop over \<open>seasonal_pattern.items()\<close>, with its guard \<open>if mask.any()\<close>.\<close>

fun apply_seasonal_pattern ::
  "timestamp list \<Rightarrow> real \<Rightarrow> (string \<times> real) list \<Rightarrow> real list
     \<Rightarrow> py_exception + real list" where
  "apply_seasonal_pattern idx multiplier [] col = Inr col"
| "apply_seasonal_pattern idx multiplier ((q, intensity) # rest) col =
     (case quarter_num q of
        Inl err \<Rightarrow> Inl err
      | Inr n \<Rightarrow>
          (let row_mask = map (\<lambda>d. int (quarter d) = n) idx
           in apply_seasonal_pattern idx multiplier rest
                (if list_ex (\<lambda>b. b) row_mask
                 then loc_assign row_mask (intensity * multiplier) col
                 else col)))"

text \<open>
  The loop over \<open>enabled_events\<close>: \<open>self.event_definitions[event_type]\<close> raises
  \<open>KeyError\<close> for an event the catalog lacks; the column starts at zero.
\<close>

fun build_features ::
  "(ExogenousEventType \<times> event_definition) list \<Rightarrow> timestamp list \<Rightarrow> ExogenousEventType list
     \<Rightarrow> (string \<times> real list) list \<Rightarrow> py_exception + (string \<times> real list) list" where
  "build_features defs idx [] cols = Inr cols"
| "build_features defs idx (event_type # rest) cols =
     (case map_of defs event_type of
        None \<Rightarrow> Inl KeyError
      | Some event_def \<Rightarrow>
          (case (case historical_periods event_def of
                   None \<Rightarrow> Inr (replicate (length idx) 0)
                 | Some ps \<Rightarrow>
                     apply_historical_periods idx (impact_multiplier event_def) ps
                       (replicate (length idx) 0)) of
             Inl err \<Rightarrow> Inl err
           | Inr col1 \<Rightarrow>
               (case (case seasonal_pattern event_def of
                        None \<Rightarrow> Inr col1
                      | Some sp \<Rightarrow>
                          apply_seasonal_pattern idx (impact_multiplier event_def) sp col1) of
                  Inl err \<Rightarrow> Inl err
                | Inr col2 \<Rightarrow>
                    build_features defs idx rest (dict_set (feature_name event_type) col2 cols))))"

definition create_exogenous_features ::
  "ExogenousVariableManager \<Rightarrow> timestamp list \<Rightarrow> ExogenousEventType list
     \<Rightarrow> py_exception + data_frame" where
  "create_exogenous_features self date_range enabled_events =
     (case build_features (event_definitions self) date_range enabled_events [] of
        Inl err \<Rightarrow> Inl err
      | Inr cols \<Rightarrow> Inr \<lparr>df_index = date_range, df_columns = cols\<rparr>)"

subsection \<open>Scenario simulation\<close>

record custom_shock =
  period :: string
  impact :: real

text \<open>The scenario dict; a key that may be absent is an \<open>option\<close>.\<close>

record scenario =
  scenario_label :: "string option"
  events :: "ExogenousEventType list option"
  custom_shocks :: "custom_shock list option"

record scenario_summary =
  avg_impact_pct :: real
  max_negative_impact_pct :: real
  max_positive_impact_pct :: real
  events_included :: "string list"

record scenario_result =
  scenario_name :: string
  base_forecast :: "real list"
  adjusted_forecast :: "real list"
  total_impact_pct :: "real list"
  summary :: scenario_summary
  exogenous_features :: "(string \<times> (timestamp \<times> real) list) list"

text \<open>
  The objects a call can reach: the manager (\<open>self\<close>), and the numpy arrays and pandas
  indexes of the process, each list indexed by reference. An argument that is an array or
  an index is passed as a reference. A new array is stored at the first unused
  reference; \<open>a += x\<close> overwrites the array at the reference of \<open>a\<close>.
\<close>

record py_state =
  manager :: ExogenousVariableManager
  ndarrays :: "real list list"
  datetime_indexes :: "timestamp list list"

definition new_array :: "real list \<Rightarrow> py_state \<Rightarrow> nat \<times> py_state" where
  "new_array a st = (length (ndarrays st), st\<lparr>ndarrays := ndarrays st @ [a]\<rparr>)"

text \<open>\<open>exog_df.sum(axis=1).values\<close>: one sum per row, over all columns.\<close>

definition df_row_sums :: "data_frame \<Rightarrow> real list" where
  "df_row_sums df =
     map (\<lambda>i. \<Sum>(name, col)\<leftarrow>df_columns df. col ! i) [0..<length (df_index df)]"

text \<open>\<open>exog_df.to_dict()\<close>: per column, a dict from index label to value.\<close>

definition df_to_dict :: "data_frame \<Rightarrow> (string \<times> (timestamp \<times> real) list) list" where
  "df_to_dict df =
     map (\<lambda>(name, col). (name, fold (\<lambda>(t, v). dict_set t v) (zip (df_index df) col) []))
       (df_columns df)"

text \<open>
  The loop over \<open>custom_shocks\<close>: the period of a shock is read and not used;
  \<open>total_impact += impact\<close> adds the impact to every entry of the array in place.
\<close>

fun apply_custom_shocks :: "custom_shock list \<Rightarrow> nat \<Rightarrow> py_state \<Rightarrow> py_state" where
  "apply_custom_shocks [] total_impact st = st"
| "apply_custom_shocks (shock # shocks) total_impact st =
     (let period' = period shock;
          impact' = impact shock
      in apply_custom_shocks shocks total_impact
           (st\<lparr>ndarrays :=
                 (ndarrays st)[total_impact :=
                    map (\<lambda>x. x + impact') (ndarrays st ! total_impact)]\<rparr>))"

text \<open>\<open>scenario.get("events", [])\<close>.\<close>

definition get_events :: "scenario \<Rightarrow> ExogenousEventType list" where
  "get_events scn = (case events scn of None \<Rightarrow> [] | Some es \<Rightarrow> es)"

definition np_mean :: "real list \<Rightarrow> real" where
  "np_mean xs = sum_list xs / real (length xs)"

text \<open>
  \<open>simulate_scenario\<close>. \<open>np.min\<close> of an empty array raises \<open>ValueError\<close> (the mean
  before it only warns), so an empty horizon ends the call there.
\<close>

definition simulate_scenario ::
  "py_state \<Rightarrow> nat \<Rightarrow> nat \<Rightarrow> scenario \<Rightarrow> (py_exception + scenario_result) \<times> py_state" where
  "simulate_scenario st base_forecast_ref date_range_ref scn =
     (case create_exogenous_features (manager st) (datetime_indexes st ! date_range_ref)
             (get_events scn) of
           Inl err \<Rightarrow> (Inl err, st)
         | Inr exog_df \<Rightarrow>
             (let (total_impact, st1) = new_array (df_row_sums exog_df) st;
                  st2 = (case custom_shocks scn of
                           None \<Rightarrow> st1
                         | Some shocks \<Rightarrow> apply_custom_shocks shocks total_impact st1)
              in case np_mul (ndarrays st2 ! base_forecast_ref)
                        (map (\<lambda>x. 1 + x) (ndarrays st2 ! total_impact)) of
                   Inl err \<Rightarrow> (Inl err, st2)
                 | Inr adjusted \<Rightarrow>
                     (let (adjusted_forecast_ref, st3) = new_array adjusted st2;
                          impacts = ndarrays st3 ! total_impact
                      in if impacts = [] then (Inl ValueError, st3)
                         else
                           (Inr \<lparr>scenario_name =
                                   (case scenario_label scn of
                                      None \<Rightarrow> ''Unnamed Scenario'' | Some n \<Rightarrow> n),
                                 base_forecast = ndarrays st3 ! base_forecast_ref,
                                 adjusted_forecast = ndarrays st3 ! adjusted_forecast_ref,
                                 total_impact_pct = map (\<lambda>x. x * 100) impacts,
                                 summary =
                                   \<lparr>avg_impact_pct = np_mean impacts * 100,
                                    max_negative_impact_pct =
                                      fold min (tl impacts) (hd impacts) * 100,
                                    max_positive_impact_pct =
                                      fold max (tl impacts) (hd impacts) * 100,
                                    events_included = map event_value (get_events scn)\<rparr>,
                                 exogenous_features = df_to_dict exog_df\<rparr>,
                            st3))))"

subsection \<open>What the feature frame is specified to hold\<close>

text \<open>
  The definitions of this subsection follow the words of the specification. The last
  element of a list that satisfies a predicate is the one that wins under overwriting.
\<close>

fun last_match :: "('a \<Rightarrow> bool) \<Rightarrow> 'a list \<Rightarrow> 'a option" where
  "last_match P [] = None"
| "last_match P (x # xs) =
     (case last_match P xs of
        Some y \<Rightarrow> Some y
      | None \<Rightarrow> if P x then Some x else None)"

text \<open>A date lies in a historical interval; a date's quarter matches a seasonal entry.\<close>

definition in_period :: "historical_period \<Rightarrow> timestamp \<Rightarrow> bool" where
  "in_period p t =
     (case (to_datetime (period_start p), to_datetime (period_end p)) of
        (Inr start, Inr end') \<Rightarrow> ts_le start t \<and> ts_le t end'
      | _ \<Rightarrow> False)"

definition in_quarter :: "string \<times> real \<Rightarrow> timestamp \<Rightarrow> bool" where
  "in_quarter entry t = (quarter_num (fst entry) = Inr (int (quarter t)))"

definition periods_of :: "event_definition \<Rightarrow> historical_period list" where
  "periods_of d = (case historical_periods d of None \<Rightarrow> [] | Some ps \<Rightarrow> ps)"

definition seasons_of :: "event_definition \<Rightarrow> (string \<times> real) list" where
  "seasons_of d = (case seasonal_pattern d of None \<Rightarrow> [] | Some sp \<Rightarrow> sp)"

text \<open>
  The value of an event's column at a date: the intensity of the last seasonal entry whose
  quarter matches, else the severity of the last historical interval that contains the
  date, each times the impact multiplier; else zero.
\<close>

definition event_impact :: "event_definition \<Rightarrow> timestamp \<Rightarrow> real" where
  "event_impact d t =
     (case last_match (\<lambda>entry. in_quarter entry t) (seasons_of d) of
        Some entry \<Rightarrow> snd entry * impact_multiplier d
      | None \<Rightarrow>
          (case last_match (\<lambda>p. in_period p t) (periods_of d) of
             Some p \<Rightarrow> severity p * impact_multiplier d
           | None \<Rightarrow> 0))"

text \<open>Every date string and quarter key of a definition is one the model reads.\<close>

definition readable :: "event_definition \<Rightarrow> bool" where
  "readable d =
     (list_all (\<lambda>p. \<not> isl (to_datetime (period_start p)) \<and> \<not> isl (to_datetime (period_end p)))
        (periods_of d) \<and>
      list_all (\<lambda>entry. \<not> isl (quarter_num (fst entry))) (seasons_of d))"

section \<open>The forecast service (inference.py)\<close>

text \<open>
  \<open>self.models\<close> maps a name to whatever \<open>joblib.load\<close> returned for it; such an object
  is seen through the two methods the service looks for, as a \<open>model_handle\<close>. An
  exception raised while the result of a call is read (\<open>.tolist()\<close>, a missing key) is
  inside the same \<open>try\<close> and counts as the call raising.
\<close>

record ForecastService =
  service_models :: "(string \<times> model_handle) list"

text \<open>The dict a volume forecast returns: \<open>forecast\<close>, and the two bounds when present.\<close>

record volume_forecast =
  vf_forecast :: "real list"
  vf_ci_lower :: "real list option"
  vf_ci_upper :: "real list option"

definition historical_data :: "real list" where
  "historical_data = [40438, 42451, 44464, 44594]"

text \<open>\<open>_simple_projection\<close>: the list comprehension runs over \<open>range(1, horizon + 1)\<close>.\<close>

definition simple_projection :: "nat \<Rightarrow> volume_forecast" where
  "simple_projection horizon =
     (let current = (44594 :: real);
          growth_rate = (3 / 100 :: real);
          fc = map (\<lambda>i. current * (1 + growth_rate) ^ i) [1..<horizon + 1]
      in \<lparr>vf_forecast = fc,
          vf_ci_lower = Some (map (\<lambda>f. f * (95 / 100)) fc),
          vf_ci_upper = Some (map (\<lambda>f. f * (105 / 100)) fc)\<rparr>)"

text \<open>
  The two calls of the \<open>try\<close> block: the adapter named \<open>lstm\<close> gets the historical
  series, every other one only \<open>steps\<close>; \<open>alpha\<close> is never passed.
\<close>

definition call_with_intervals ::
  "string \<Rightarrow> (real list option \<Rightarrow> nat \<Rightarrow> real option \<Rightarrow> py_exception + interval_forecast)
     \<Rightarrow> nat \<Rightarrow> py_exception + interval_forecast" where
  "call_with_intervals model f horizon =
     (if model = ''lstm'' then f (Some historical_data) horizon None else f None horizon None)"

definition call_point ::
  "string \<Rightarrow> (real list option \<Rightarrow> nat \<Rightarrow> py_exception + real list) \<Rightarrow> nat
     \<Rightarrow> py_exception + real list" where
  "call_point model f horizon =
     (if model = ''lstm'' then f (Some historical_data) horizon else f None horizon)"

text \<open>
  The body of the \<open>try\<close>. The interval branch is taken when \<open>include_intervals\<close>
  holds and the object has a \<open>predict_with_intervals\<close> attribute; otherwise the plain
  branch calls \<open>predict\<close>, and an object without that attribute raises
  \<open>AttributeError\<close>.
\<close>

definition try_forecast ::
  "string \<Rightarrow> model_handle \<Rightarrow> nat \<Rightarrow> bool \<Rightarrow> py_exception + volume_forecast" where
  "try_forecast model model_obj horizon include_intervals =
     (case (if include_intervals then predict_with_intervals model_obj else None) of
        Some g \<Rightarrow>
          (case call_with_intervals model g horizon of
             Inl err \<Rightarrow> Inl err
           | Inr result \<Rightarrow>
               Inr \<lparr>vf_forecast = forecast result,
                    vf_ci_lower = Some (ci_lower result),
                    vf_ci_upper = Some (ci_upper result)\<rparr>)
      | None \<Rightarrow>
          (case predict model_obj of
             None \<Rightarrow> Inl AttributeError
           | Some f \<Rightarrow>
               (case call_point model f horizon of
                  Inl err \<Rightarrow> Inl err
                | Inr pred \<Rightarrow>
                    Inr \<lparr>vf_forecast = pred, vf_ci_lower = None, vf_ci_upper = None\<rparr>)))"

text \<open>
  \<open>forecast_volume\<close>: every exception of the \<open>try\<close> is caught, so the call always
  returns a forecast.
\<close>

definition forecast_volume ::
  "ForecastService \<Rightarrow> nat \<Rightarrow> string \<Rightarrow> bool \<Rightarrow> volume_forecast" where
  "forecast_volume self horizon model include_intervals =
     (case map_of (service_models self) model of
        None \<Rightarrow> simple_projection horizon
      | Some model_obj \<Rightarrow>
          (case try_forecast model model_obj horizon include_intervals of
             Inl err \<Rightarrow> simple_projection horizon
           | Inr res \<Rightarrow> res))"

subsection \<open>Auxiliary notions for the proofs\<close>

text \<open>The sum of the impacts of a scenario's custom shocks (zero without the key).\<close>

definition shock_sum :: "scenario \<Rightarrow> real" where
  "shock_sum scn =
     (case custom_shocks scn of None \<Rightarrow> 0 | Some shocks \<Rightarrow> sum_list (map impact shocks))"

text \<open>
  The weight \<open>self.weights.get(name, 0)\<close>, and the content of the \<open>predictions\<close> dict
  after the first loop of \<open>predict_volume\<close> when the registry's names are distinct.
\<close>

definition weight_of :: "(string \<times> real) list \<Rightarrow> string \<Rightarrow> real" where
  "weight_of ws name = (case map_of ws name of None \<Rightarrow> 0 | Some w \<Rightarrow> w)"

fun successful_predictions ::
  "(string \<times> real) list \<Rightarrow> real list \<Rightarrow> nat \<Rightarrow> (string \<times> model_handle) list
     \<Rightarrow> (string \<times> real list) list" where
  "successful_predictions ws train_data steps [] = []"
| "successful_predictions ws train_data steps ((name, model) # ms) =
     (case (map_of ws name, predict model) of
        (Some w, Some f) \<Rightarrow>
          (case call_predict name f train_data steps of
             Inl err \<Rightarrow> successful_predictions ws train_data steps ms
           | Inr pred \<Rightarrow> (name, pred) # successful_predictions ws train_data steps ms)
      | _ \<Rightarrow> successful_predictions ws train_data steps ms)"

subsection \<open>Dates, states and scenarios used as examples\<close>

definition quarters_2024 :: "timestamp list" where
  "quarters_2024 =
     [Timestamp 2024 1 1 0, Timestamp 2024 4 1 0, Timestamp 2024 7 1 0, Timestamp 2024 10 1 0]"

text \<open>
  A process state with the catalog of the source, one array (a base forecast, reference 0)
  and one index (a date range, reference 0).
\<close>

definition demo_state :: "real list \<Rightarrow> timestamp list \<Rightarrow> py_state" where
  "demo_state base idx =
     \<lparr>manager = \<lparr>event_definitions = define_events\<rparr>,
      ndarrays = [base],
      datetime_indexes = [idx]\<rparr>"

text \<open>
  The name, events and shocks of the predefined templates \<open>baseline\<close> and
  \<open>wildfire_season\<close>, and the single-shock scenario of the specification.
\<close>

definition baseline_scenario :: scenario where
  "baseline_scenario =
     \<lparr>scenario_label = Some ''Baseline (Status Quo)'', events = Some [],
      custom_shocks = Some []\<rparr>"

definition wildfire_season_scenario :: scenario where
  "wildfire_season_scenario =
     \<lparr>scenario_label = Some ''Severe Wildfire Season'', events = Some [WILDFIRE],
      custom_shocks = Some
        [\<lparr>period = ''2024-Q3'', impact = - (35 / 100)\<rparr>,
         \<lparr>period = ''2024-Q4'', impact = - (20 / 100)\<rparr>]\<rparr>"

definition single_shock_scenario :: scenario where
  "single_shock_scenario =
     \<lparr>scenario_label = None, events = None,
      custom_shocks = Some [\<lparr>period = ''2024-Q3'', impact = - (2 / 10)\<rparr>]\<rparr>"

text \<open>
  An event definition with two overlapping historical intervals and a seasonal entry, to
  exercise the order of the assignments.
\<close>

definition overlapping_event :: event_definition where
  "overlapping_event =
     \<lparr>event_name = ''Overlap'',
      description = ''Two overlapping intervals and a third-quarter pattern'',
      historical_periods = Some
        [\<lparr>period_start = ''2024-01'', period_end = ''2024-06'', severity = 5 / 10\<rparr>,
         \<lparr>period_start = ''2024-04'', period_end = ''2024-09'', severity = 1\<rparr>],
      seasonal_pattern = Some [(''Q3'', 2 / 10)],
      impact_multiplier = - 1,
      affected_neighborhoods = None\<rparr>"

section \<open>Properties of the ensemble combiner\<close>

subsection \<open>Dicts\<close>

lemma dict_keys_dict_set:
  "dict_keys (dict_set k v d) =
     (if k \<in> set (dict_keys d) then dict_keys d else dict_keys d @ [k])"
  by (induction d) (force simp: dict_keys_def)+

lemma dict_set_new: "k \<notin> set (dict_keys d) \<Longrightarrow> dict_set k v d = d @ [(k, v)]"
  by (induction d) (force simp: dict_keys_def)+

subsection \<open>The two loops of \<open>predict_volume\<close>\<close>

lemma collect_predictions_append:
  "distinct (dict_keys ms) \<Longrightarrow> set (dict_keys acc) \<inter> set (dict_keys ms) = {}
   \<Longrightarrow> collect_predictions ws td steps ms acc = acc @ successful_predictions ws td steps ms"
proof (induction ms arbitrary: acc)
  case Nil
  then show ?case by simp
next
  case (Cons nm ms)
  obtain name model where nm: "nm = (name, model)" by (cases nm)
  have d: "distinct (dict_keys ms)" and fresh: "name \<notin> set (dict_keys ms)"
    and accd: "set (dict_keys acc) \<inter> set (dict_keys ms) = {}"
    and nacc: "name \<notin> set (dict_keys acc)"
    using Cons.prems by (auto simp: nm dict_keys_def)
  have keep: "collect_predictions ws td steps ms acc = acc @ successful_predictions ws td steps ms"
    using Cons.IH[OF d accd] .
  have add: "collect_predictions ws td steps ms (dict_set name pred acc)
      = acc @ (name, pred) # successful_predictions ws td steps ms" for pred
  proof -
    have "set (dict_keys (acc @ [(name, pred)])) \<inter> set (dict_keys ms) = {}"
      using accd fresh by (auto simp: dict_keys_def)
    from Cons.IH[OF d this] show ?thesis
      by (simp add: dict_set_new[OF nacc])
  qed
  show ?case
    by (simp add: nm keep add split: option.splits sum.splits)
qed

lemma collect_predictions_all_fail:
  "(\<forall>(name, model) \<in> set ms. \<forall>f. map_of ws name \<noteq> None \<longrightarrow> predict model = Some f \<longrightarrow>
       (\<exists>err. call_predict name f train_data steps = Inl err))
   \<Longrightarrow> collect_predictions ws train_data steps ms predictions = predictions"
  by (induction ms arbitrary: predictions) (auto split: option.splits sum.splits)

lemma weighted_average_sum:
  "\<forall>(name, pred) \<in> set ps. length pred = length ep
   \<Longrightarrow> weighted_average ws ps ep tw =
       Inr (map (\<lambda>i. ep ! i + (\<Sum>(name, pred)\<leftarrow>ps. weight_of ws name * pred ! i))
              [0..<length ep],
            tw + (\<Sum>(name, pred)\<leftarrow>ps. weight_of ws name))"
proof (induction ps arbitrary: ep tw)
  case Nil
  then show ?case by (simp add: map_nth)
next
  case (Cons np ps)
  obtain name pred where np: "np = (name, pred)" by (cases np)
  define ep' where "ep' = map2 (+) ep (map (\<lambda>x. weight_of ws name * x) pred)"
  have len: "length pred = length ep"
    and rest: "\<forall>(name, pred) \<in> set ps. length pred = length ep'"
    using Cons.prems by (auto simp: np ep'_def)
  have step: "np_iadd ep (map (\<lambda>x. weight_of ws name * x) pred) = Inr ep'"
    by (simp add: np_iadd_def len ep'_def)
  have len': "length ep' = length ep" by (simp add: ep'_def len)
  have nth': "ep' ! i = ep ! i + weight_of ws name * pred ! i" if "i < length ep" for i
    using that by (simp add: ep'_def len)
  have "weighted_average ws (np # ps) ep tw
      = weighted_average ws ps ep' (tw + weight_of ws name)"
    using step by (simp add: np weight_of_def)
  also have "\<dots> =
      Inr (map (\<lambda>i. ep' ! i + (\<Sum>(name, pred)\<leftarrow>ps. weight_of ws name * pred ! i))
             [0..<length ep'],
           tw + weight_of ws name + (\<Sum>(name, pred)\<leftarrow>ps. weight_of ws name))"
    using Cons.IH[OF rest] .
  also have "\<dots> =
      Inr (map (\<lambda>i. ep ! i + (\<Sum>(name, pred)\<leftarrow>np # ps. weight_of ws name * pred ! i))
             [0..<length ep],
           tw + (\<Sum>(name, pred)\<leftarrow>np # ps. weight_of ws name))"
    by (simp add: len' nth' np add.assoc)
  finally show ?case .
qed

lemma sum_weighted_forecasts:
  "(\<Sum>(name, pred)\<leftarrow>successful_predictions ws td steps ms. weight_of ws name * pred ! i)
     = (\<Sum>(w, pred)\<leftarrow>weighted_forecasts ws td steps ms. w * pred ! i)"
  "(\<Sum>(name, pred)\<leftarrow>successful_predictions ws td steps ms. weight_of ws name)
     = (\<Sum>(w, pred)\<leftarrow>weighted_forecasts ws td steps ms. w)"
  by (induction ms) (auto simp: weight_of_def split: option.splits sum.splits)

lemma successful_lengths:
  "(\<forall>(w, pred) \<in> set (weighted_forecasts ws td steps ms). length pred = n)
   \<Longrightarrow> (\<forall>(name, pred) \<in> set (successful_predictions ws td steps ms). length pred = n)"
  by (induction ms) (auto split: option.splits sum.splits)

lemma predict_volume_general:
  assumes "weights e \<noteq> []" "distinct (dict_keys (models e))"
    "\<forall>(w, pred) \<in> set (weighted_forecasts (weights e) td steps (models e)). length pred = steps"
  shows "predict_volume e td steps =
     Inr (combined_forecast (weighted_forecasts (weights e) td steps (models e)) steps)"
proof -
  have cp: "collect_predictions (weights e) td steps (models e) []
      = successful_predictions (weights e) td steps (models e)"
    using collect_predictions_append[OF assms(2), of "[]"] by (simp add: dict_keys_def)
  have lens: "\<forall>(name, pred) \<in> set (successful_predictions (weights e) td steps (models e)).
      length pred = length (replicate steps (0::real))"
    using successful_lengths[OF assms(3)] by simp
  show ?thesis
    unfolding predict_volume_def cp
    by (simp add: assms(1) weighted_average_sum[OF lens] sum_weighted_forecasts
        combined_forecast_def Let_def cong: map_cong)
qed

lemma map2_zero_left: "length q = n \<Longrightarrow> map2 (+) (replicate n (0::real)) q = q"
  by (induction q arbitrary: n) auto

lemma predict_volume_two_constant:
  "predict_volume (two_model_ensemble (constant_model [10, 20]) (constant_model [30, 40])) td 2
     = Inr [20, 30]"
  by (simp add: predict_volume_def two_model_ensemble_def constant_model_def call_predict_def
      np_iadd_def numeral_2_eq_2)

lemma predict_volume_second_fails:
  "length p = steps
   \<Longrightarrow> predict_volume (two_model_ensemble (constant_model p) failing_model) td steps = Inr p"
  by (simp add: predict_volume_def two_model_ensemble_def constant_model_def failing_model_def
      call_predict_def np_iadd_def map2_zero_left Let_def o_def)

lemma predict_volume_first_fails:
  "length p = steps
   \<Longrightarrow> predict_volume (two_model_ensemble failing_model (constant_model p)) td steps = Inr p"
  by (simp add: predict_volume_def two_model_ensemble_def constant_model_def failing_model_def
      call_predict_def np_iadd_def map2_zero_left Let_def o_def)

text \<open>
  Claim C1. With weights set (an empty weight map is claim C5), when the registry's names
  are distinct (it is a dict) and every weighted model that returns gives a forecast of
  length \<open>steps\<close>, \<open>predict_volume\<close> returns the
  elementwise sum of \<open>weight * forecast\<close> over the models whose call succeeded, divided by
  the total weight used when that is positive and further than \<open>1e-6\<close> from one. Two models
  of weight 0.5 with forecasts \<open>[10, 20]\<close> and \<open>[30, 40]\<close> over two steps give
  \<open>[20, 30]\<close>; when one of two equally weighted models fails, the result is the forecast
  of the other.
\<close>

theorem predict_volume_weighted_sum:
  "(weights e \<noteq> [] \<and> distinct (dict_keys (models e)) \<and>
    (\<forall>(w, pred) \<in> set (weighted_forecasts (weights e) td steps (models e)).
        length pred = steps)
    \<longrightarrow> predict_volume e td steps =
          Inr (combined_forecast (weighted_forecasts (weights e) td steps (models e)) steps)) \<and>
   predict_volume (two_model_ensemble (constant_model [10, 20]) (constant_model [30, 40])) td 2
     = Inr [20, 30] \<and>
   (length p = steps \<longrightarrow>
      predict_volume (two_model_ensemble (constant_model p) failing_model) td steps = Inr p \<and>
      predict_volume (two_model_ensemble failing_model (constant_model p)) td steps = Inr p)"
  using predict_volume_general[of e td steps] predict_volume_two_constant[of td]
    predict_volume_second_fails[of p steps td] predict_volume_first_fails[of p steps td]
  by blast

theorem predict_volume_weighted_sum_witness:
  "weights (two_model_ensemble (constant_model [10, 20]) failing_model) \<noteq> [] \<and>
   distinct (dict_keys (models (two_model_ensemble (constant_model [10, 20]) failing_model))) \<and>
   weighted_forecasts (weights (two_model_ensemble (constant_model [10, 20]) failing_model)) [] 2
     (models (two_model_ensemble (constant_model [10, 20]) failing_model)) = [(1 / 2, [10, 20])] \<and>
   combined_forecast [(1 / 2, [10, 20])] 2 = [10, 20] \<and>
   predict_volume (two_model_ensemble (constant_model [10, 20]) failing_model) [] 2
     = Inr [10, 20]"
  using predict_volume_weighted_sum
    [of "two_model_ensemble (constant_model [10, 20]) failing_model" "[]" 2 "[10, 20]"]
  by (simp add: two_model_ensemble_def constant_model_def failing_model_def call_predict_def
      dict_keys_def combined_forecast_def numeral_2_eq_2)

subsection \<open>Inverse-error weighting\<close>

lemma extract_scores_ok:
  "\<forall>(name, row) \<in> set metrics. \<exists>s. map_of row metric = Some s \<and> s \<noteq> 0
   \<Longrightarrow> extract_scores metrics metric =
         Inr (map (\<lambda>(name, row). (name, metric_score row metric)) metrics)"
  by (induction metrics) (auto simp: metric_score_def)

lemma invert_scores_ok:
  "\<forall>(name, s) \<in> set scores. s \<noteq> 0
   \<Longrightarrow> invert_scores scores = Inr (map (\<lambda>(name, s). (name, 1 / s)) scores)"
  by (induction scores) auto

lemma normalize_scores_ok:
  "t \<noteq> 0 \<Longrightarrow> normalize_scores t invs = Inr (map (\<lambda>(name, i). (name, i / t)) invs)"
  by (induction invs) auto

lemma sum_list_divide: "(\<Sum>x\<leftarrow>xs. f x / (c::real)) = (\<Sum>x\<leftarrow>xs. f x) / c"
  by (induction xs) (auto simp: add_divide_distrib)

lemma auto_weight_general:
  assumes "\<forall>(name, row) \<in> set metrics. \<exists>s. map_of row metric = Some s \<and> s \<noteq> 0"
    and "inverse_total metrics metric \<noteq> 0"
  shows "auto_weight_by_performance e metrics metric =
           (Inr (), e\<lparr>weights := inverse_error_weights metrics metric\<rparr>)"
    and "sum_list (dict_values (inverse_error_weights metrics metric)) = 1"
    and "dict_keys (inverse_error_weights metrics metric) = dict_keys metrics"
proof -
  let ?scores = "map (\<lambda>(name, row). (name, metric_score row metric)) metrics"
  have nz: "\<forall>(name, s) \<in> set ?scores. s \<noteq> 0"
    using assms(1) by (auto simp: metric_score_def)
  have tot: "sum_list (dict_values (map (\<lambda>(name, s). (name, 1 / s)) ?scores))
      = inverse_total metrics metric"
    by (simp add: dict_values_def inverse_total_def o_def case_prod_unfold)
  have norm: "normalize_scores (inverse_total metrics metric)
        (map (\<lambda>(name, s). (name, 1 / s)) ?scores)
      = Inr (inverse_error_weights metrics metric)"
    by (simp add: normalize_scores_ok[OF assms(2)] inverse_error_weights_def o_def
        case_prod_unfold)
  show "auto_weight_by_performance e metrics metric =
          (Inr (), e\<lparr>weights := inverse_error_weights metrics metric\<rparr>)"
    unfolding auto_weight_by_performance_def extract_scores_ok[OF assms(1)]
      invert_scores_ok[OF nz] sum.case Let_def tot norm
    by simp
  have "sum_list (dict_values (inverse_error_weights metrics metric))
      = (\<Sum>nr\<leftarrow>metrics. (1 / metric_score (snd nr) metric) / inverse_total metrics metric)"
    by (simp add: dict_values_def inverse_error_weights_def o_def case_prod_unfold)
  also have "\<dots> = inverse_total metrics metric / inverse_total metrics metric"
    unfolding sum_list_divide by (simp add: inverse_total_def case_prod_unfold)
  finally show "sum_list (dict_values (inverse_error_weights metrics metric)) = 1"
    using assms(2) by simp
  show "dict_keys (inverse_error_weights metrics metric) = dict_keys metrics"
    by (simp add: dict_keys_def inverse_error_weights_def o_def case_prod_unfold)
qed

lemma sum_list_positive:
  "xs \<noteq> [] \<Longrightarrow> \<forall>x \<in> set xs. (0::real) < f x \<Longrightarrow> 0 < (\<Sum>x\<leftarrow>xs. f x)"
  by (induction xs rule: list_nonempty_induct) (auto intro: add_pos_pos)

lemma inverse_total_positive:
  assumes "metrics \<noteq> []"
    and "\<forall>(name, row) \<in> set metrics. \<exists>s. map_of row metric = Some s \<and> 0 < s"
  shows "0 < inverse_total metrics metric"
proof -
  have "\<forall>nr \<in> set metrics. 0 < 1 / metric_score (snd nr) metric"
    using assms(2) by (auto simp: metric_score_def)
  from sum_list_positive[OF assms(1) this] show ?thesis
    by (simp add: inverse_total_def case_prod_unfold)
qed

text \<open>
  Claim C2, as amended. For every performance record in which each listed model has a
  nonzero value for the chosen metric and whose inverse values do not sum to zero (as in
  every non-empty record of positive values), \<open>auto_weight_by_performance\<close> returns
  normally and sets each model's weight to \<open>(1 / s) / sum of all (1 / s)\<close>; the new weight
  map sums to one and its keys are the record's. For \<open>{A: 10, B: 20}\<close> on \<open>mape\<close> the
  weights are \<open>2/3\<close> and \<open>1/3\<close>.
\<close>

theorem auto_weight_by_performance_inverse_error:
  "((\<forall>(name, row) \<in> set metrics. \<exists>s. map_of row metric = Some s \<and> s \<noteq> 0) \<and>
    (inverse_total metrics metric \<noteq> 0 \<or>
     metrics \<noteq> [] \<and> (\<forall>(name, row) \<in> set metrics. 0 < metric_score row metric))
    \<longrightarrow> auto_weight_by_performance e metrics metric =
            (Inr (), e\<lparr>weights := inverse_error_weights metrics metric\<rparr>) \<and>
          sum_list (dict_values (inverse_error_weights metrics metric)) = 1 \<and>
          dict_keys (inverse_error_weights metrics metric) = dict_keys metrics) \<and>
   auto_weight_by_performance e [(''A'', [(''mape'', 10)]), (''B'', [(''mape'', 20)])] ''mape''
     = (Inr (), e\<lparr>weights := [(''A'', 2 / 3), (''B'', 1 / 3)]\<rparr>) \<and>
   (1 / 10) / (1 / 10 + 1 / 20) = (2 / 3 :: real) \<and> (1 / 3 :: real) < 2 / 3"
proof -
  have general: "auto_weight_by_performance e metrics metric =
            (Inr (), e\<lparr>weights := inverse_error_weights metrics metric\<rparr>) \<and>
          sum_list (dict_values (inverse_error_weights metrics metric)) = 1 \<and>
          dict_keys (inverse_error_weights metrics metric) = dict_keys metrics"
    if rec: "\<forall>(name, row) \<in> set metrics. \<exists>s. map_of row metric = Some s \<and> s \<noteq> 0"
      and tot: "inverse_total metrics metric \<noteq> 0 \<or>
        metrics \<noteq> [] \<and> (\<forall>(name, row) \<in> set metrics. 0 < metric_score row metric)"
  proof -
    have "inverse_total metrics metric \<noteq> 0"
    proof (cases "inverse_total metrics metric \<noteq> 0")
      case True
      then show ?thesis .
    next
      case False
      with tot have ne: "metrics \<noteq> []"
        and pos: "\<forall>(name, row) \<in> set metrics. 0 < metric_score row metric"
        by auto
      have "\<forall>(name, row) \<in> set metrics. \<exists>s. map_of row metric = Some s \<and> 0 < s"
        using rec pos by (fastforce simp: metric_score_def)
      from inverse_total_positive[OF ne this] show ?thesis by simp
    qed
    from auto_weight_general[OF rec this] show ?thesis by simp
  qed
  have example: "auto_weight_by_performance e
       [(''A'', [(''mape'', 10)]), (''B'', [(''mape'', 20)])] ''mape''
     = (Inr (), e\<lparr>weights := [(''A'', 2 / 3), (''B'', 1 / 3)]\<rparr>)"
    by (simp add: auto_weight_by_performance_def dict_values_def)
  from general example show ?thesis by simp
qed

theorem auto_weight_by_performance_inverse_error_witness:
  "inverse_total [(''sarima'', [(''rmse'', 4), (''mape'', 5)]), (''lstm'', [(''mape'', 20)])] ''mape''
     = 1 / 4 \<and>
   auto_weight_by_performance empty_ensemble
       [(''sarima'', [(''rmse'', 4), (''mape'', 5)]), (''lstm'', [(''mape'', 20)])] ''mape''
     = (Inr (), empty_ensemble\<lparr>weights := [(''sarima'', 4 / 5), (''lstm'', 1 / 5)]\<rparr>) \<and>
   sum_list (dict_values [(''sarima'', 4 / 5 :: real), (''lstm'', 1 / 5)]) = 1"
  using auto_weight_by_performance_inverse_error
    [where metrics = "[(''sarima'', [(''rmse'', 4), (''mape'', 5)]), (''lstm'', [(''mape'', 20)])]"
       and metric = "''mape''" and e = empty_ensemble]
  by (simp add: inverse_total_def metric_score_def inverse_error_weights_def)

text \<open>
  The claim as stated fails at the empty record, where the call returns normally with an
  empty weight map (sum zero, not one), and at a record whose nonzero values have inverses
  that cancel, where the normalisation divides by zero.
\<close>

theorem auto_weight_by_performance_counterexample:
  "auto_weight_by_performance empty_ensemble [] ''mape'' = (Inr (), empty_ensemble) \<and>
   sum_list (dict_values (weights (snd (auto_weight_by_performance empty_ensemble [] ''mape''))))
     = 0 \<and>
   auto_weight_by_performance empty_ensemble
       [(''A'', [(''mape'', 1)]), (''B'', [(''mape'', - 1)])] ''mape''
     = (Inl ZeroDivisionError, empty_ensemble)"
  by (simp add: auto_weight_by_performance_def empty_ensemble_def dict_values_def)

subsection \<open>The weight map and the registry\<close>

lemma weights_registered_iff:
  "weights_registered e \<longleftrightarrow> set (dict_keys (weights e)) \<subseteq> set (dict_keys (models e))"
  by (auto simp: weights_registered_def list_all_iff dict_keys_def map_of_eq_None_iff)

lemma validate_models_exist_Inr:
  "validate_models_exist ms names = Inr () \<longleftrightarrow> set names \<subseteq> set (dict_keys ms)"
  by (induction names) (auto simp: dict_keys_def map_of_eq_None_iff)

lemma validate_models_exist_cases:
  "validate_models_exist ms names = Inr () \<or> validate_models_exist ms names = Inl ValueError"
  by (induction names) auto

lemma add_model_preserves_registered:
  "weights_registered e \<Longrightarrow> weights_registered (add_model e name model weight)"
  by (auto simp: weights_registered_iff add_model_def Let_def dict_keys_dict_set
      split: option.splits if_splits)

lemma set_weights_preserves_registered:
  "weights_registered e \<Longrightarrow> weights_registered (snd (set_weights e ws))"
  using validate_models_exist_Inr[of "models e" "dict_keys ws"]
  by (auto simp: weights_registered_iff set_weights_def split: sum.splits)

text \<open>
  Claim C4. \<open>add_model\<close> and \<open>set_weights\<close> keep every key of the weight map registered
  (the two lemmas above), as \<open>set_weights\<close> checks each proposed key against the
  registry. \<open>auto_weight_by_performance\<close> does not: it takes the keys of the new weight map from
  the record it is given and never looks at the registry. With \<open>A\<close> the only registered
  model, the record \<open>{B: {mape: 10}}\<close> leaves the weight map \<open>{B: 1}\<close>.
\<close>

theorem auto_weight_by_performance_unregistered_key:
  "weights_registered
     \<lparr>models = [(''A'', constant_model [1])], weights = [(''A'', 1)], performance_metrics = []\<rparr> \<and>
   auto_weight_by_performance
     \<lparr>models = [(''A'', constant_model [1])], weights = [(''A'', 1)], performance_metrics = []\<rparr>
     [(''B'', [(''mape'', 10)])] ''mape''
     = (Inr (),
        \<lparr>models = [(''A'', constant_model [1])], weights = [(''B'', 1)],
         performance_metrics = []\<rparr>) \<and>
   \<not> weights_registered
     \<lparr>models = [(''A'', constant_model [1])], weights = [(''B'', 1)], performance_metrics = []\<rparr>"
  by (simp add: auto_weight_by_performance_def weights_registered_def dict_values_def
      dict_keys_def)

subsection \<open>Failure modes of \<open>predict_volume\<close> and \<open>set_weights\<close>\<close>

text \<open>
  Claim C5. With an empty weight map \<open>predict_volume\<close> raises \<open>ValueError\<close>. With a
  non-empty weight map, when the call of every weighted model that has a \<open>predict\<close> method
  raises, it returns the zero vector of length \<open>steps\<close>.
\<close>

theorem predict_volume_empty_or_all_failed:
  "(weights e = [] \<longrightarrow> predict_volume e train_data steps = Inl ValueError) \<and>
   (weights e \<noteq> [] \<and>
    (\<forall>(name, model) \<in> set (models e). \<forall>f.
        map_of (weights e) name \<noteq> None \<longrightarrow> predict model = Some f \<longrightarrow>
        (\<exists>err. call_predict name f train_data steps = Inl err))
    \<longrightarrow> predict_volume e train_data steps = Inr (replicate steps 0))"
  by (simp add: predict_volume_def collect_predictions_all_fail)

theorem predict_volume_empty_or_all_failed_witness:
  "weights empty_ensemble = [] \<and>
   predict_volume empty_ensemble [1, 2] 3 = Inl ValueError \<and>
   weights (two_model_ensemble failing_model failing_model) \<noteq> [] \<and>
   predict_volume (two_model_ensemble failing_model failing_model) [1, 2] 3 = Inr [0, 0, 0]"
  using predict_volume_empty_or_all_failed[of empty_ensemble "[1, 2]" 3]
    predict_volume_empty_or_all_failed[of "two_model_ensemble failing_model failing_model" "[1, 2]" 3]
  by (simp add: empty_ensemble_def two_model_ensemble_def failing_model_def call_predict_def
      numeral_3_eq_3)

text \<open>
  Claim C6. \<open>set_weights\<close> raises \<open>ValueError\<close> exactly when the proposed weights are
  further than \<open>1e-6\<close> from summing to one or some proposed key is not a registered model
  name; it raises nothing else; when it raises, the object is unchanged; when it returns,
  the stored weight map is the argument.
\<close>

theorem set_weights_validation:
  "(fst (set_weights e ws) = Inl ValueError \<longleftrightarrow>
      (\<bar>sum_list (dict_values ws) - 1\<bar> > 1 / 1000000 \<or>
       (\<exists>name \<in> set (dict_keys ws). name \<notin> set (dict_keys (models e))))) \<and>
   (fst (set_weights e ws) = Inl ValueError \<or> fst (set_weights e ws) = Inr ()) \<and>
   (fst (set_weights e ws) = Inl ValueError \<longrightarrow> snd (set_weights e ws) = e) \<and>
   (fst (set_weights e ws) = Inr () \<longrightarrow> snd (set_weights e ws) = e\<lparr>weights := ws\<rparr>)"
  using validate_models_exist_Inr[of "models e" "dict_keys ws"]
    validate_models_exist_cases[of "models e" "dict_keys ws"]
  by (auto simp: set_weights_def split: sum.splits)

theorem set_weights_validation_witness:
  "set_weights (two_model_ensemble failing_model failing_model) [(''sarima'', 3 / 10)]
     = (Inl ValueError, two_model_ensemble failing_model failing_model) \<and>
   set_weights (two_model_ensemble failing_model failing_model) [(''xgboost'', 1)]
     = (Inl ValueError, two_model_ensemble failing_model failing_model) \<and>
   set_weights (two_model_ensemble failing_model failing_model) [(''prophet'', 1)]
     = (Inr (), (two_model_ensemble failing_model failing_model)\<lparr>weights := [(''prophet'', 1)]\<rparr>)"
  using set_weights_validation
      [of "two_model_ensemble failing_model failing_model" "[(''sarima'', 3 / 10)]"]
    set_weights_validation
      [of "two_model_ensemble failing_model failing_model" "[(''xgboost'', 1)]"]
    set_weights_validation
      [of "two_model_ensemble failing_model failing_model" "[(''prophet'', 1)]"]
  by (simp add: set_weights_def two_model_ensemble_def dict_values_def dict_keys_def)


section \<open>Properties of the feature frame and the scenario simulator\<close>

subsection \<open>The column of one event\<close>

lemma loc_assign_map:
  "loc_assign (map P idx) v (map g idx) = map (\<lambda>t. if P t then v else g t) idx"
  by (induction idx) (auto simp: loc_assign_def)

lemma no_hits_map:
  "\<not> list_ex (\<lambda>b. b) (map P idx) \<Longrightarrow> map (\<lambda>t. if P t then v else g t) idx = map g idx"
  by (induction idx) auto

lemma apply_historical_periods_spec:
  "list_all (\<lambda>p. \<not> isl (to_datetime (period_start p)) \<and> \<not> isl (to_datetime (period_end p))) ps
   \<Longrightarrow> apply_historical_periods idx m ps (map g idx) =
       Inr (map (\<lambda>t. case last_match (\<lambda>p. in_period p t) ps of
                        Some p \<Rightarrow> severity p * m | None \<Rightarrow> g t) idx)"
proof (induction ps arbitrary: g)
  case Nil
  then show ?case by simp
next
  case (Cons p ps)
  from Cons.prems obtain s e where s: "to_datetime (period_start p) = Inr s"
    and e: "to_datetime (period_end p) = Inr e"
    by (cases "to_datetime (period_start p)"; cases "to_datetime (period_end p)") auto
  have rest: "list_all
      (\<lambda>p. \<not> isl (to_datetime (period_start p)) \<and> \<not> isl (to_datetime (period_end p))) ps"
    using Cons.prems by simp
  have inp: "in_period p t = (ts_le s t \<and> ts_le t e)" for t
    by (simp add: in_period_def s e)
  show ?case
    by (auto simp: s e loc_assign_map Cons.IH[OF rest] inp split: option.splits)
qed

lemma apply_seasonal_pattern_spec:
  "list_all (\<lambda>entry. \<not> isl (quarter_num (fst entry))) sp
   \<Longrightarrow> apply_seasonal_pattern idx m sp (map g idx) =
       Inr (map (\<lambda>t. case last_match (\<lambda>entry. in_quarter entry t) sp of
                        Some entry \<Rightarrow> snd entry * m | None \<Rightarrow> g t) idx)"
proof (induction sp arbitrary: g)
  case Nil
  then show ?case by simp
next
  case (Cons qi sp)
  obtain q i where qi: "qi = (q, i)" by (cases qi)
  from Cons.prems obtain n where n: "quarter_num q = Inr n"
    by (cases "quarter_num q") (auto simp: qi)
  have rest: "list_all (\<lambda>entry. \<not> isl (quarter_num (fst entry))) sp"
    using Cons.prems by simp
  have inq: "in_quarter (q, i) t = (int (quarter t) = n)" for t
    by (auto simp: in_quarter_def n)
  have step: "(if list_ex (\<lambda>b. b) (map (\<lambda>d. int (quarter d) = n) idx)
        then loc_assign (map (\<lambda>d. int (quarter d) = n) idx) (i * m) (map g idx) else map g idx)
      = map (\<lambda>t. if int (quarter t) = n then i * m else g t) idx"
    by (simp add: loc_assign_map no_hits_map)
  show ?case
    unfolding qi apply_seasonal_pattern.simps n sum.case Let_def step
    by (simp add: Cons.IH[OF rest] inq split: option.splits cong: map_cong)
qed

lemma event_column:
  assumes "readable d"
  shows "(case (case historical_periods d of
                   None \<Rightarrow> Inr (replicate (length idx) 0)
                 | Some ps \<Rightarrow>
                     apply_historical_periods idx (impact_multiplier d) ps
                       (replicate (length idx) 0)) of
             Inl err \<Rightarrow> Inl err
           | Inr col1 \<Rightarrow>
               (case (case seasonal_pattern d of
                        None \<Rightarrow> Inr col1
                      | Some sp \<Rightarrow>
                          apply_seasonal_pattern idx (impact_multiplier d) sp col1) of
                  Inl err \<Rightarrow> Inl err
                | Inr col2 \<Rightarrow> F col2)) = F (map (event_impact d) idx)"
proof -
  have zero: "replicate (length idx) (0::real) = map (\<lambda>t. 0) idx"
    by (simp add: map_replicate_const)
  have h: "(case historical_periods d of
                   None \<Rightarrow> Inr (replicate (length idx) 0)
                 | Some ps \<Rightarrow>
                     apply_historical_periods idx (impact_multiplier d) ps
                       (replicate (length idx) 0))
     = Inr (map (\<lambda>t. case last_match (\<lambda>p. in_period p t) (periods_of d) of
                        Some p \<Rightarrow> severity p * impact_multiplier d | None \<Rightarrow> 0) idx)"
    using assms unfolding zero
    by (auto simp: readable_def periods_of_def apply_historical_periods_spec
        split: option.splits)
  have s: "(case seasonal_pattern d of
                        None \<Rightarrow> Inr (map g idx)
                      | Some sp \<Rightarrow>
                          apply_seasonal_pattern idx (impact_multiplier d) sp (map g idx))
     = Inr (map (\<lambda>t. case last_match (\<lambda>entry. in_quarter entry t) (seasons_of d) of
                        Some entry \<Rightarrow> snd entry * impact_multiplier d | None \<Rightarrow> g t) idx)"
    for g
    using assms
    by (auto simp: readable_def seasons_of_def apply_seasonal_pattern_spec split: option.splits)
  show ?thesis
    unfolding h sum.case s
    by (simp add: event_impact_def cong: map_cong)
qed

subsection \<open>The columns of the frame\<close>

lemma build_features_fold:
  "\<forall>e \<in> set es. \<exists>d. map_of defs e = Some d \<and> readable d
   \<Longrightarrow> build_features defs idx es cols =
       Inr (fold (\<lambda>e. dict_set (feature_name e) (map (event_impact (the (map_of defs e))) idx))
              es cols)"
proof (induction es arbitrary: cols)
  case Nil
  then show ?case by simp
next
  case (Cons e es)
  from Cons.prems obtain d where d: "map_of defs e = Some d" and r: "readable d" by auto
  have rest: "\<forall>e \<in> set es. \<exists>d. map_of defs e = Some d \<and> readable d"
    using Cons.prems by simp
  show ?case
    unfolding build_features.simps d option.case event_column[OF r]
    by (simp add: Cons.IH[OF rest] d)
qed

lemma feature_name_inj: "feature_name a = feature_name b \<Longrightarrow> a = b"
  by (cases a; cases b) (simp_all add: feature_name_def)

lemma map_of_dict_set: "map_of (dict_set k v d) = (map_of d)(k \<mapsto> v)"
  by (induction d) (auto simp: fun_eq_iff)

lemma fold_dict_set_keys:
  "set (dict_keys (fold (\<lambda>e. dict_set (f e) (c e)) es cols)) = set (dict_keys cols) \<union> f ` set es"
  by (induction es arbitrary: cols) (auto simp: dict_keys_dict_set)

lemma fold_dict_set_distinct:
  "distinct (dict_keys cols)
   \<Longrightarrow> distinct (dict_keys (fold (\<lambda>e. dict_set (f e) (c e)) es cols))"
  by (induction es arbitrary: cols) (auto simp: dict_keys_dict_set)

lemma fold_dict_set_other:
  "k \<notin> f ` set es \<Longrightarrow> map_of (fold (\<lambda>e. dict_set (f e) (c e)) es cols) k = map_of cols k"
  by (induction es arbitrary: cols) (auto simp: map_of_dict_set)

lemma fold_dict_set_lookup:
  "inj f \<Longrightarrow> e \<in> set es
   \<Longrightarrow> map_of (fold (\<lambda>e. dict_set (f e) (c e)) es cols) (f e) = Some (c e)"
proof (induction es arbitrary: cols)
  case Nil
  then show ?case by simp
next
  case (Cons a es)
  show ?case
  proof (cases "e \<in> set es")
    case True
    then show ?thesis using Cons.IH[OF Cons.prems(1)] by simp
  next
    case False
    with Cons.prems have ea: "e = a" by simp
    have "f e \<notin> f ` set es" using False Cons.prems(1) by (auto dest: injD)
    then show ?thesis by (simp add: fold_dict_set_other ea map_of_dict_set)
  qed
qed

lemma define_events_readable: "list_all (\<lambda>(e, d). readable d) define_events"
  by (simp add: define_events_def readable_def periods_of_def seasons_of_def to_datetime_def
      quarter_num_def py_int_def)

lemma define_events_total: "map_of define_events e \<noteq> None"
  by (cases e) (simp_all add: define_events_def)

lemma define_events_ok: "\<exists>d. map_of define_events e = Some d \<and> readable d"
proof -
  obtain d where d: "map_of define_events e = Some d"
    using define_events_total[of e] by auto
  then have "(e, d) \<in> set define_events" by (rule map_of_SomeD)
  with define_events_readable have "readable d" by (auto simp: list_all_iff)
  with d show ?thesis by simp
qed

text \<open>
  Claim C7. When every enabled event is in the catalog and its date strings and quarter
  keys are read, \<open>create_exogenous_features\<close> returns a frame over the date range with
  exactly one column per enabled event and no other column; the column of an event holds,
  at each date, the value \<open>event_impact\<close> gives: zero to start with, overwritten by
  \<open>severity * impact_multiplier\<close> of the last historical interval that contains the
  date, overwritten in turn by \<open>intensity * impact_multiplier\<close> of the last seasonal entry
  whose quarter is the date's. With the catalog of the source the condition holds for every
  list of events.
\<close>

theorem create_exogenous_features_overwrite:
  "((\<forall>e \<in> set enabled. \<exists>d. map_of (event_definitions self) e = Some d \<and> readable d) \<or>
    event_definitions self = define_events) \<longrightarrow>
     (\<exists>cols. create_exogenous_features self idx enabled
              = Inr \<lparr>df_index = idx, df_columns = cols\<rparr> \<and>
        set (dict_keys cols) = feature_name ` set enabled \<and> distinct (dict_keys cols) \<and>
        (\<forall>e \<in> set enabled. \<forall>d. map_of (event_definitions self) e = Some d \<longrightarrow>
            map_of cols (feature_name e) = Some (map (event_impact d) idx)))"
proof
  assume "(\<forall>e \<in> set enabled. \<exists>d. map_of (event_definitions self) e = Some d \<and> readable d) \<or>
    event_definitions self = define_events"
  then have a: "\<forall>e \<in> set enabled. \<exists>d. map_of (event_definitions self) e = Some d \<and> readable d"
    using define_events_ok by auto
  let ?c = "\<lambda>e. map (event_impact (the (map_of (event_definitions self) e))) idx"
  let ?cols = "fold (\<lambda>e. dict_set (feature_name e) (?c e)) enabled []"
  have inj: "inj feature_name" by (auto intro: injI feature_name_inj)
  have 1: "create_exogenous_features self idx enabled
      = Inr \<lparr>df_index = idx, df_columns = ?cols\<rparr>"
    by (simp add: create_exogenous_features_def build_features_fold[OF a])
  have 2: "set (dict_keys ?cols) = feature_name ` set enabled"
    unfolding fold_dict_set_keys by (simp add: dict_keys_def)
  have 3: "distinct (dict_keys ?cols)"
    by (rule fold_dict_set_distinct) (simp add: dict_keys_def)
  have 4: "\<forall>e \<in> set enabled. \<forall>d. map_of (event_definitions self) e = Some d \<longrightarrow>
            map_of ?cols (feature_name e) = Some (map (event_impact d) idx)"
    using fold_dict_set_lookup[OF inj, of _ enabled ?c "[]"] by auto
  from 1 2 3 4
  show "\<exists>cols. create_exogenous_features self idx enabled
              = Inr \<lparr>df_index = idx, df_columns = cols\<rparr> \<and>
        set (dict_keys cols) = feature_name ` set enabled \<and> distinct (dict_keys cols) \<and>
        (\<forall>e \<in> set enabled. \<forall>d. map_of (event_definitions self) e = Some d \<longrightarrow>
            map_of cols (feature_name e) = Some (map (event_impact d) idx))"
    by blast
qed

text \<open>
  At the first days of the quarters of 2024, for an event with the intervals
  2024-01..2024-06 (severity 0.5) and 2024-04..2024-09 (severity 1), a third-quarter
  intensity 0.2 and multiplier -1: the second interval wins in April, the seasonal entry
  replaces it in July.
\<close>

theorem create_exogenous_features_overwrite_witness:
  "readable overlapping_event \<and>
   map (event_impact overlapping_event) quarters_2024 = [- (1 / 2), - 1, - (1 / 5), 0] \<and>
   create_exogenous_features \<lparr>event_definitions = [(WILDFIRE, overlapping_event)]\<rparr>
       quarters_2024 [WILDFIRE, WILDFIRE]
     = Inr \<lparr>df_index = quarters_2024,
            df_columns = [(''exog_wildfire'', [- (1 / 2), - 1, - (1 / 5), 0])]\<rparr>"
  using create_exogenous_features_overwrite
    [of "[WILDFIRE, WILDFIRE]" "\<lparr>event_definitions = [(WILDFIRE, overlapping_event)]\<rparr>"
        quarters_2024]
  by (simp add: create_exogenous_features_def overlapping_event_def quarters_2024_def
      feature_name_def quarter_num_def py_int_def to_datetime_def quarter_def loc_assign_def
      readable_def periods_of_def seasons_of_def event_impact_def in_quarter_def in_period_def)

subsection \<open>The scenario overlay\<close>

lemma apply_custom_shocks_sum:
  "ti < length (ndarrays st)
   \<Longrightarrow> apply_custom_shocks shocks ti st =
       st\<lparr>ndarrays := (ndarrays st)[ti :=
             map (\<lambda>x. x + sum_list (map impact shocks)) (ndarrays st ! ti)]\<rparr>"
proof (induction shocks arbitrary: st)
  case Nil
  then show ?case by simp
next
  case (Cons shock shocks)
  let ?st = "st\<lparr>ndarrays := (ndarrays st)[ti :=
                    map (\<lambda>x. x + impact shock) (ndarrays st ! ti)]\<rparr>"
  have len: "ti < length (ndarrays ?st)" using Cons.prems by simp
  show ?case
    using Cons.prems by (simp add: Cons.IH[OF len] Let_def o_def add.assoc)
qed

lemma shocked_state:
  "(case custom_shocks scn of
      None \<Rightarrow> st\<lparr>ndarrays := ndarrays st @ [a]\<rparr>
    | Some shocks \<Rightarrow>
        apply_custom_shocks shocks (length (ndarrays st)) (st\<lparr>ndarrays := ndarrays st @ [a]\<rparr>))
   = st\<lparr>ndarrays := ndarrays st @ [map (\<lambda>x. x + shock_sum scn) a]\<rparr>"
  by (simp add: shock_sum_def apply_custom_shocks_sum split: option.splits)

lemma simulate_scenario_unfold:
  assumes "create_exogenous_features (manager st) (datetime_indexes st ! dr) (get_events scn)
      = Inr df"
    and "b < length (ndarrays st)"
  shows "simulate_scenario st b dr scn =
     (let impacts = map (\<lambda>x. x + shock_sum scn) (df_row_sums df)
      in case np_mul (ndarrays st ! b) (map (\<lambda>x. 1 + x) impacts) of
           Inl err \<Rightarrow> (Inl err, st\<lparr>ndarrays := ndarrays st @ [impacts]\<rparr>)
         | Inr adjusted \<Rightarrow>
             (if impacts = [] then Inl ValueError
              else Inr \<lparr>scenario_name =
                          (case scenario_label scn of
                             None \<Rightarrow> ''Unnamed Scenario'' | Some n \<Rightarrow> n),
                        base_forecast = ndarrays st ! b,
                        adjusted_forecast = adjusted,
                        total_impact_pct = map (\<lambda>x. x * 100) impacts,
                        summary =
                          \<lparr>avg_impact_pct = np_mean impacts * 100,
                           max_negative_impact_pct = fold min (tl impacts) (hd impacts) * 100,
                           max_positive_impact_pct = fold max (tl impacts) (hd impacts) * 100,
                           events_included = map event_value (get_events scn)\<rparr>,
                        exogenous_features = df_to_dict df\<rparr>,
              st\<lparr>ndarrays := ndarrays st @ [impacts, adjusted]\<rparr>))"
  unfolding simulate_scenario_def assms(1) sum.case new_array_def Let_def prod.case shocked_state
  using assms(2)
  by (simp add: nth_append split: sum.splits)

lemma no_events_frame:
  "create_exogenous_features self idx [] = Inr \<lparr>df_index = idx, df_columns = []\<rparr>"
  by (simp add: create_exogenous_features_def)

lemma no_columns_row_sums:
  "df_row_sums \<lparr>df_index = idx, df_columns = []\<rparr> = replicate (length idx) 0"
  by (simp add: df_row_sums_def map_replicate_const)

lemma replicate_4: "replicate 4 x = [x, x, x, x]"
  by (simp add: numeral_eq_Suc)

lemma np_mul_replicate:
  "length xs = n \<Longrightarrow> np_mul xs (replicate n c) = Inr (map (\<lambda>x. x * c) xs)"
  by (induction xs arbitrary: n) (auto simp: np_mul_def)

lemma simulate_scenario_no_events:
  assumes "b < length (ndarrays st)" and "get_events scn = []"
    and "length (ndarrays st ! b) = length (datetime_indexes st ! dr)"
    and "datetime_indexes st ! dr \<noteq> []"
  shows "\<exists>r. simulate_scenario st b dr scn =
           (Inr r, st\<lparr>ndarrays := ndarrays st @
               [replicate (length (datetime_indexes st ! dr)) (shock_sum scn),
                map (\<lambda>x. x * (1 + shock_sum scn)) (ndarrays st ! b)]\<rparr>) \<and>
         base_forecast r = ndarrays st ! b \<and>
         adjusted_forecast r = map (\<lambda>x. x * (1 + shock_sum scn)) (ndarrays st ! b) \<and>
         total_impact_pct r
           = replicate (length (datetime_indexes st ! dr)) (shock_sum scn * 100)"
proof -
  have c: "create_exogenous_features (manager st) (datetime_indexes st ! dr) (get_events scn)
      = Inr \<lparr>df_index = datetime_indexes st ! dr, df_columns = []\<rparr>"
    by (simp add: assms(2) no_events_frame)
  show ?thesis
    unfolding simulate_scenario_unfold[OF c assms(1)] no_columns_row_sums
    using assms(3,4)
    by (simp add: Let_def np_mul_replicate)
qed

text \<open>
  Claim C3. When the feature frame is built and the scenario has custom shocks, the array
  \<open>total_impact\<close> (the first array the call creates) holds, at every period, the sum of
  the event columns plus the impact of every shock, whatever period a shock names; so do
  the percentages of a returned result. For the single shock \<open>2024-Q3\<close>, \<open>-0.2\<close>, no
  enabled events and a base forecast and date range of four periods, the call returns,
  \<open>total_impact\<close> is \<open>-0.2\<close> at all four periods and the adjusted forecast is
  \<open>base_forecast * (1 + total_impact)\<close> elementwise.
\<close>

theorem simulate_scenario_shocks_every_period:
  "(base < length (ndarrays st) \<and>
    create_exogenous_features (manager st) (datetime_indexes st ! dr) (get_events scn)
      = Inr exog_df \<and>
    custom_shocks scn = Some shocks \<longrightarrow>
      ndarrays (snd (simulate_scenario st base dr scn)) ! length (ndarrays st)
        = map (\<lambda>s. s + sum_list (map impact shocks)) (df_row_sums exog_df) \<and>
      (\<forall>r. fst (simulate_scenario st base dr scn) = Inr r \<longrightarrow>
         total_impact_pct r
           = map (\<lambda>s. (s + sum_list (map impact shocks)) * 100) (df_row_sums exog_df))) \<and>
   (base < length (ndarrays st) \<and> length (ndarrays st ! base) = 4 \<and>
    length (datetime_indexes st ! dr) = 4 \<and> get_events scn = [] \<and>
    custom_shocks scn = Some [\<lparr>period = ''2024-Q3'', impact = - (2 / 10)\<rparr>] \<longrightarrow>
      (\<exists>r. fst (simulate_scenario st base dr scn) = Inr r \<and>
           total_impact_pct r = replicate 4 (- 20) \<and>
           adjusted_forecast r = map (\<lambda>b. b * (1 + - (2 / 10))) (ndarrays st ! base)) \<and>
      ndarrays (snd (simulate_scenario st base dr scn)) ! length (ndarrays st)
        = replicate 4 (- (2 / 10)))"
proof (intro conjI impI)
  assume a: "base < length (ndarrays st) \<and>
    create_exogenous_features (manager st) (datetime_indexes st ! dr) (get_events scn)
      = Inr exog_df \<and>
    custom_shocks scn = Some shocks"
  then have b: "base < length (ndarrays st)"
    and c: "create_exogenous_features (manager st) (datetime_indexes st ! dr) (get_events scn)
      = Inr exog_df"
    and s: "shock_sum scn = sum_list (map impact shocks)"
    by (simp_all add: shock_sum_def)
  show "ndarrays (snd (simulate_scenario st base dr scn)) ! length (ndarrays st)
        = map (\<lambda>s. s + sum_list (map impact shocks)) (df_row_sums exog_df)"
    unfolding simulate_scenario_unfold[OF c b] s
    by (simp add: Let_def nth_append split: sum.splits)
  show "\<forall>r. fst (simulate_scenario st base dr scn) = Inr r \<longrightarrow>
         total_impact_pct r
           = map (\<lambda>s. (s + sum_list (map impact shocks)) * 100) (df_row_sums exog_df)"
    unfolding simulate_scenario_unfold[OF c b] s
    by (auto simp: Let_def split: sum.splits if_splits)
next
  assume a: "base < length (ndarrays st) \<and> length (ndarrays st ! base) = 4 \<and>
    length (datetime_indexes st ! dr) = 4 \<and> get_events scn = [] \<and>
    custom_shocks scn = Some [\<lparr>period = ''2024-Q3'', impact = - (2 / 10)\<rparr>]"
  then have s: "shock_sum scn = - (2 / 10)"
    by (simp add: shock_sum_def)
  from a have ne: "datetime_indexes st ! dr \<noteq> []" by auto
  from a have len: "length (ndarrays st ! base) = length (datetime_indexes st ! dr)" by simp
  from a have b: "base < length (ndarrays st)" and e: "get_events scn = []" by simp_all
  from simulate_scenario_no_events[OF b e len ne]
  obtain r where r: "simulate_scenario st base dr scn =
           (Inr r, st\<lparr>ndarrays := ndarrays st @
               [replicate (length (datetime_indexes st ! dr)) (shock_sum scn),
                map (\<lambda>x. x * (1 + shock_sum scn)) (ndarrays st ! base)]\<rparr>)"
    and adj: "adjusted_forecast r = map (\<lambda>x. x * (1 + shock_sum scn)) (ndarrays st ! base)"
    and pct: "total_impact_pct r
           = replicate (length (datetime_indexes st ! dr)) (shock_sum scn * 100)"
    by blast
  show "\<exists>r. fst (simulate_scenario st base dr scn) = Inr r \<and>
           total_impact_pct r = replicate 4 (- 20) \<and>
           adjusted_forecast r = map (\<lambda>b. b * (1 + - (2 / 10))) (ndarrays st ! base)"
    using a by (simp add: r adj pct s)
  show "ndarrays (snd (simulate_scenario st base dr scn)) ! length (ndarrays st)
        = replicate 4 (- (2 / 10))"
    using a by (simp add: r s)
qed

theorem simulate_scenario_shocks_every_period_witness:
  "create_exogenous_features (manager (demo_state [100, 200, 300, 400] quarters_2024))
       (datetime_indexes (demo_state [100, 200, 300, 400] quarters_2024) ! 0)
       (get_events single_shock_scenario)
     = Inr \<lparr>df_index = quarters_2024, df_columns = []\<rparr> \<and>
   (\<exists>r. fst (simulate_scenario (demo_state [100, 200, 300, 400] quarters_2024) 0 0
              single_shock_scenario) = Inr r \<and>
        total_impact_pct r = [- 20, - 20, - 20, - 20] \<and>
        adjusted_forecast r = [80, 160, 240, 320]) \<and>
   ndarrays (snd (simulate_scenario (demo_state [100, 200, 300, 400] quarters_2024) 0 0
                    single_shock_scenario)) ! 1
     = [- (1 / 5), - (1 / 5), - (1 / 5), - (1 / 5)]"
proof -
  let ?st = "demo_state [100, 200, 300, 400] quarters_2024"
  let ?shocks = "[\<lparr>period = ''2024-Q3'', impact = - (2 / 10)\<rparr>]"
  have c: "create_exogenous_features (manager ?st) (datetime_indexes ?st ! 0)
       (get_events single_shock_scenario)
     = Inr \<lparr>df_index = quarters_2024, df_columns = []\<rparr>"
    by (simp add: demo_state_def single_shock_scenario_def get_events_def
        create_exogenous_features_def)
  have pre: "0 < length (ndarrays ?st) \<and> length (ndarrays ?st ! 0) = 4 \<and>
      length (datetime_indexes ?st ! 0) = 4 \<and> get_events single_shock_scenario = [] \<and>
      custom_shocks single_shock_scenario = Some ?shocks"
    by (simp add: demo_state_def quarters_2024_def single_shock_scenario_def get_events_def)
  from simulate_scenario_shocks_every_period
    [of 0 ?st 0 single_shock_scenario "\<lparr>df_index = quarters_2024, df_columns = []\<rparr>" ?shocks]
    pre
  have "(\<exists>r. fst (simulate_scenario ?st 0 0 single_shock_scenario) = Inr r \<and>
           total_impact_pct r = replicate 4 (- 20) \<and>
           adjusted_forecast r = map (\<lambda>b. b * (1 + - (2 / 10))) (ndarrays ?st ! 0)) \<and>
      ndarrays (snd (simulate_scenario ?st 0 0 single_shock_scenario)) ! length (ndarrays ?st)
        = replicate 4 (- (2 / 10))"
    by blast
  moreover have "ndarrays ?st ! 0 = [100, 200, 300, 400]" and "length (ndarrays ?st) = 1"
    by (simp_all add: demo_state_def)
  ultimately show ?thesis
    using c by (simp add: replicate_4)
qed

text \<open>
  Claim C8, as amended. For a base forecast and a date range of the same non-zero length,
  \<open>simulate_scenario\<close> with no enabled events and no custom shocks (either key absent
  or empty) returns, and its adjusted forecast equals the base forecast.
\<close>

theorem simulate_scenario_empty_scenario_identity:
  "base < length (ndarrays st) \<and>
   length (ndarrays st ! base) = length (datetime_indexes st ! dr) \<and>
   datetime_indexes st ! dr \<noteq> [] \<and> get_events scn = [] \<and>
   (custom_shocks scn = None \<or> custom_shocks scn = Some [])
   \<longrightarrow> (\<exists>r. fst (simulate_scenario st base dr scn) = Inr r \<and>
            adjusted_forecast r = ndarrays st ! base \<and>
            adjusted_forecast r = base_forecast r)"
proof
  assume a: "base < length (ndarrays st) \<and>
   length (ndarrays st ! base) = length (datetime_indexes st ! dr) \<and>
   datetime_indexes st ! dr \<noteq> [] \<and> get_events scn = [] \<and>
   (custom_shocks scn = None \<or> custom_shocks scn = Some [])"
  then have s: "shock_sum scn = 0" by (auto simp: shock_sum_def)
  from a have b: "base < length (ndarrays st)" and e: "get_events scn = []"
    and len: "length (ndarrays st ! base) = length (datetime_indexes st ! dr)"
    and ne: "datetime_indexes st ! dr \<noteq> []"
    by simp_all
  from simulate_scenario_no_events[OF b e len ne]
  show "\<exists>r. fst (simulate_scenario st base dr scn) = Inr r \<and>
            adjusted_forecast r = ndarrays st ! base \<and>
            adjusted_forecast r = base_forecast r"
    by (auto simp: s)
qed

theorem simulate_scenario_empty_scenario_identity_witness:
  "get_events baseline_scenario = [] \<and> custom_shocks baseline_scenario = Some [] \<and>
   (\<exists>r. fst (simulate_scenario (demo_state [100, 200, 300, 400] quarters_2024) 0 0
              baseline_scenario) = Inr r \<and>
        adjusted_forecast r = [100, 200, 300, 400] \<and>
        adjusted_forecast r = base_forecast r)"
  using simulate_scenario_empty_scenario_identity
    [of 0 "demo_state [100, 200, 300, 400] quarters_2024" 0 baseline_scenario]
  by (simp add: demo_state_def quarters_2024_def baseline_scenario_def get_events_def)

text \<open>
  The claim as stated, for every base forecast and date range, fails when the lengths
  differ or are zero: a one-element base forecast is broadcast over a two-period range, a
  three-element one does not fit it (\<open>ValueError\<close>), and on an empty range the summary's
  minimum raises \<open>ValueError\<close>.
\<close>

theorem simulate_scenario_empty_scenario_counterexample:
  "(\<exists>r. fst (simulate_scenario
               (demo_state [100] [Timestamp 2024 1 1 0, Timestamp 2024 4 1 0]) 0 0
               baseline_scenario) = Inr r \<and>
        base_forecast r = [100] \<and> adjusted_forecast r = [100, 100]) \<and>
   fst (simulate_scenario
          (demo_state [100, 200, 300] [Timestamp 2024 1 1 0, Timestamp 2024 4 1 0]) 0 0
          baseline_scenario) = Inl ValueError \<and>
   fst (simulate_scenario (demo_state [] []) 0 0 baseline_scenario) = Inl ValueError"
  by (simp add: simulate_scenario_def demo_state_def baseline_scenario_def get_events_def
      create_exogenous_features_def df_row_sums_def new_array_def np_mul_def Let_def
      numeral_2_eq_2)

text \<open>
  Claim C10. A call of \<open>simulate_scenario\<close> on an existing base-forecast array leaves
  the manager (with its event definitions), every index (so the date range) and every array
  that existed before the call (so the base forecast) as they were, whether it returns or
  raises; the arrays it creates are new. The \<open>base_forecast\<close> of a returned result is
  the input array.
\<close>

theorem simulate_scenario_frame:
  "base < length (ndarrays st) \<longrightarrow>
     manager (snd (simulate_scenario st base dr scn)) = manager st \<and>
     event_definitions (manager (snd (simulate_scenario st base dr scn)))
       = event_definitions (manager st) \<and>
     datetime_indexes (snd (simulate_scenario st base dr scn)) = datetime_indexes st \<and>
     take (length (ndarrays st)) (ndarrays (snd (simulate_scenario st base dr scn)))
       = ndarrays st \<and>
     ndarrays (snd (simulate_scenario st base dr scn)) ! base = ndarrays st ! base \<and>
     (\<forall>r. fst (simulate_scenario st base dr scn) = Inr r \<longrightarrow>
          base_forecast r = ndarrays st ! base)"
proof
  assume b: "base < length (ndarrays st)"
  show "manager (snd (simulate_scenario st base dr scn)) = manager st \<and>
     event_definitions (manager (snd (simulate_scenario st base dr scn)))
       = event_definitions (manager st) \<and>
     datetime_indexes (snd (simulate_scenario st base dr scn)) = datetime_indexes st \<and>
     take (length (ndarrays st)) (ndarrays (snd (simulate_scenario st base dr scn)))
       = ndarrays st \<and>
     ndarrays (snd (simulate_scenario st base dr scn)) ! base = ndarrays st ! base \<and>
     (\<forall>r. fst (simulate_scenario st base dr scn) = Inr r \<longrightarrow>
          base_forecast r = ndarrays st ! base)"
  proof (cases "create_exogenous_features (manager st) (datetime_indexes st ! dr)
      (get_events scn)")
    case (Inl err)
    then show ?thesis by (simp add: simulate_scenario_def)
  next
    case (Inr df)
    show ?thesis
      unfolding simulate_scenario_unfold[OF Inr b]
      using b by (auto simp: Let_def nth_append split: sum.splits if_splits)
  qed
qed

text \<open>
  The template \<open>wildfire_season\<close> over the quarters of 2024: no wildfire interval of the
  catalog contains a date, both shocks reach all four quarters, and the call adds two
  arrays behind the base forecast.
\<close>

theorem simulate_scenario_frame_witness:
  "\<exists>r. simulate_scenario (demo_state [100, 200, 300, 400] quarters_2024) 0 0
          wildfire_season_scenario
        = (Inr r,
           \<lparr>manager = \<lparr>event_definitions = define_events\<rparr>,
            ndarrays =
              [[100, 200, 300, 400],
               [- (55 / 100), - (55 / 100), - (55 / 100), - (55 / 100)],
               [45, 90, 135, 180]],
            datetime_indexes = [quarters_2024]\<rparr>) \<and>
       base_forecast r = [100, 200, 300, 400] \<and>
       adjusted_forecast r = [45, 90, 135, 180] \<and>
       total_impact_pct r = [- 55, - 55, - 55, - 55] \<and>
       events_included (summary r) = [''wildfire'']"
  using simulate_scenario_frame
    [of 0 "demo_state [100, 200, 300, 400] quarters_2024" 0 wildfire_season_scenario]
  by (simp add: simulate_scenario_def demo_state_def quarters_2024_def
      wildfire_season_scenario_def get_events_def create_exogenous_features_def
      define_events_def to_datetime_def loc_assign_def feature_name_def df_row_sums_def
      new_array_def np_mul_def Let_def upt_rec np_mean_def)

section \<open>Properties of the forecast service\<close>

lemma simple_projection_forecast:
  "length (vf_forecast (simple_projection horizon)) = horizon"
  "i < horizon \<Longrightarrow> vf_forecast (simple_projection horizon) ! i = 44594 * (1 + 3 / 100) ^ (i + 1)"
  by (simp_all add: simple_projection_def Let_def nth_map_upt del: upt_Suc)

lemma simple_projection_bounds:
  "vf_ci_lower (simple_projection horizon)
     = Some (map (\<lambda>f. f * (95 / 100)) (vf_forecast (simple_projection horizon)))"
  "vf_ci_upper (simple_projection horizon)
     = Some (map (\<lambda>f. f * (105 / 100)) (vf_forecast (simple_projection horizon)))"
  by (simp_all add: simple_projection_def Let_def)

text \<open>
  Claim C9. \<open>forecast_volume\<close> always returns a forecast (no exception leaves it). It
  returns the fallback projection when the model name is not among the loaded models, when
  the interval call it makes raises, when the object has no \<open>predict\<close> method for the
  plain call, and when the plain call it makes raises. The fallback has \<open>horizon\<close>
  entries, entry \<open>i\<close> (from 0) is \<open>44594 * 1.03 ^ (i + 1)\<close>, and its bounds are 0.95
  and 1.05 times each entry.
\<close>

theorem forecast_volume_fallback:
  "(map_of (service_models self) model = None \<longrightarrow>
      forecast_volume self horizon model include_intervals = simple_projection horizon) \<and>
   (map_of (service_models self) model = Some model_obj \<and> include_intervals \<and>
    predict_with_intervals model_obj = Some g \<and>
    call_with_intervals model g horizon = Inl err \<longrightarrow>
      forecast_volume self horizon model include_intervals = simple_projection horizon) \<and>
   (map_of (service_models self) model = Some model_obj \<and>
    (\<not> include_intervals \<or> predict_with_intervals model_obj = None) \<and>
    (predict model_obj = None \<or>
     (\<exists>f err. predict model_obj = Some f \<and> call_point model f horizon = Inl err)) \<longrightarrow>
      forecast_volume self horizon model include_intervals = simple_projection horizon) \<and>
   length (vf_forecast (simple_projection horizon)) = horizon \<and>
   (\<forall>i < horizon.
      vf_forecast (simple_projection horizon) ! i = 44594 * (1 + 3 / 100) ^ (i + 1)) \<and>
   vf_ci_lower (simple_projection horizon)
     = Some (map (\<lambda>f. f * (95 / 100)) (vf_forecast (simple_projection horizon))) \<and>
   vf_ci_upper (simple_projection horizon)
     = Some (map (\<lambda>f. f * (105 / 100)) (vf_forecast (simple_projection horizon)))"
proof (intro conjI impI allI)
  show "length (vf_forecast (simple_projection horizon)) = horizon"
    by (rule simple_projection_forecast)
next
  fix i assume "i < horizon"
  then show "vf_forecast (simple_projection horizon) ! i = 44594 * (1 + 3 / 100) ^ (i + 1)"
    by (rule simple_projection_forecast)
next
  show "vf_ci_lower (simple_projection horizon)
     = Some (map (\<lambda>f. f * (95 / 100)) (vf_forecast (simple_projection horizon)))"
    by (rule simple_projection_bounds)
next
  show "vf_ci_upper (simple_projection horizon)
     = Some (map (\<lambda>f. f * (105 / 100)) (vf_forecast (simple_projection horizon)))"
    by (rule simple_projection_bounds)
qed (auto simp: forecast_volume_def try_forecast_def)

theorem forecast_volume_fallback_witness:
  "forecast_volume \<lparr>service_models = []\<rparr> 2 ''ensemble'' True = simple_projection 2 \<and>
   forecast_volume \<lparr>service_models = [(''sarima'', failing_model)]\<rparr> 2 ''sarima'' True
     = simple_projection 2 \<and>
   forecast_volume
     \<lparr>service_models = [(''ensemble'', \<lparr>predict = None, predict_with_intervals = None\<rparr>)]\<rparr>
     2 ''ensemble'' True
     = simple_projection 2 \<and>
   simple_projection 2 =
     \<lparr>vf_forecast = [4593182 / 100, 473097746 / 10000],
      vf_ci_lower = Some [43635229 / 1000, 4494428587 / 100000],
      vf_ci_upper = Some [48228411 / 1000, 4967526333 / 100000]\<rparr>"
  using forecast_volume_fallback[of "\<lparr>service_models = []\<rparr>" "''ensemble''" 2 True]
    forecast_volume_fallback
      [of "\<lparr>service_models = [(''sarima'', failing_model)]\<rparr>" "''sarima''" 2 True failing_model]
    forecast_volume_fallback
      [of "\<lparr>service_models = [(''ensemble'', \<lparr>predict = None, predict_with_intervals = None\<rparr>)]\<rparr>"
          "''ensemble''" 2 True "\<lparr>predict = None, predict_with_intervals = None\<rparr>"]
  by (simp add: failing_model_def call_point_def simple_projection_def Let_def upt_rec
      power2_eq_square)


end
